theory Spec2Isabelle
  imports Complex_Main "HOL-Library.AList"
begin

section \<open>Python values, dictionaries and paths\<close>

text \<open>
  The launcher \<^verbatim>\<open>run_linear_launcher.py\<close> passes configuration values around without
  looking into most of them.  A value is one of Python's scalars.  A float is represented
  by the rational its literal denotes: the launcher only stores and compares such values.
\<close>

datatype pyval = PNone | PBool bool | PInt int | PFloat rat | PStr string

text \<open>
  A \<^verbatim>\<open>dict\<close> keeps its keys in insertion order, so it is an association list;
  a lookup reads the first entry of a key.  A variant is a dict with string keys.
\<close>

type_synonym variant = "(string \<times> pyval) list"

type_synonym row = "(string \<times> pyval) list"

text \<open>What \<^verbatim>\<open>get_mteb_results\<close> returns, read as \<^verbatim>\<open>results[task][split]\<close>.\<close>

type_synonym results = "(pyval \<times> (pyval \<times> row) list) list"

datatype value_error = MissingTripletMargin | InvalidLossType pyval

datatype error = KeyError pyval | ValueError value_error | IndexError | TypeError

text \<open>\<^verbatim>\<open>d[k]\<close> raises \<^verbatim>\<open>KeyError\<close> on a missing key; \<^verbatim>\<open>d.get(k, default)\<close> does not.\<close>

definition subscript :: "variant \<Rightarrow> string \<Rightarrow> error + pyval" where
  "subscript d k = (case map_of d k of None \<Rightarrow> Inl (KeyError (PStr k)) | Some v \<Rightarrow> Inr v)"

definition get_default :: "variant \<Rightarrow> string \<Rightarrow> pyval \<Rightarrow> pyval" where
  "get_default d k dflt = (case map_of d k of None \<Rightarrow> dflt | Some v \<Rightarrow> v)"

definition item :: "(pyval \<times> 'a) list \<Rightarrow> pyval \<Rightarrow> error + 'a" where
  "item d k = (case map_of d k of None \<Rightarrow> Inl (KeyError k) | Some v \<Rightarrow> Inr v)"

text \<open>
  The dict display \<^verbatim>\<open>{'epoch': e, 'loss': l, **r}\<close>: the entries of \<^verbatim>\<open>r\<close> are stored
  one by one; a key that is already there keeps its place and takes the new value.
\<close>

definition dict_display :: "row \<Rightarrow> row \<Rightarrow> row" where
  "dict_display fixed r = foldl (\<lambda>d (k, v). AList.update k v d) fixed r"

text \<open>\<^verbatim>\<open>x - 1\<close> on a number; anything else raises \<^verbatim>\<open>TypeError\<close>.\<close>

fun minus_one :: "pyval \<Rightarrow> error + pyval" where
  "minus_one (PInt n) = Inr (PInt (n - 1))"
| "minus_one (PBool b) = Inr (PInt ((if b then 1 else 0) - 1))"
| "minus_one (PFloat r) = Inr (PFloat (r - 1))"
| "minus_one _ = Inl TypeError"

text \<open>\<^verbatim>\<open>xs[-1]\<close> raises \<^verbatim>\<open>IndexError\<close> on an empty list.\<close>

definition last_item :: "'a list \<Rightarrow> error + 'a" where
  "last_item xs = (if xs = [] then Inl IndexError else Inr (last xs))"

text \<open>\<^verbatim>\<open>enumerate(xs)\<close>.\<close>

definition enumerate_from0 :: "'a list \<Rightarrow> (nat \<times> 'a) list" where
  "enumerate_from0 xs = zip [0..<length xs] xs"

text \<open>
  \<^verbatim>\<open>os.path.join\<close>, \<^verbatim>\<open>os.path.dirname\<close> and \<^verbatim>\<open>os.path.basename\<close> of
  \<^verbatim>\<open>posixpath\<close>.
\<close>

definition join2 :: "string \<Rightarrow> string \<Rightarrow> string" where
  "join2 a b =
     (if b \<noteq> [] \<and> hd b = CHR ''/'' then b
      else if a = [] \<or> last a = CHR ''/'' then a @ b
      else a @ CHR ''/'' # b)"

definition join :: "string \<Rightarrow> string list \<Rightarrow> string" where
  "join a ps = foldl join2 a ps"

definition basename :: "string \<Rightarrow> string" where
  "basename p = rev (takeWhile (\<lambda>c. c \<noteq> CHR ''/'') (rev p))"

definition dirname :: "string \<Rightarrow> string" where
  "dirname p =
     (let head = rev (dropWhile (\<lambda>c. c \<noteq> CHR ''/'') (rev p))
      in if head \<noteq> [] \<and> head \<noteq> replicate (length head) CHR ''/''
         then rev (dropWhile (\<lambda>c. c = CHR ''/'') (rev head))
         else head)"

section \<open>The hyperparameter grid\<close>

text \<open>
  Modelled from the spec: \<^verbatim>\<open>DeterministicHyperparameterSweeper\<close> comes from the
  \<^verbatim>\<open>launchkit\<close> package, which is not part of the sources.  The spec calls it a
  deterministic Cartesian-product generator over configuration dictionaries, a
  straightforward nested Cartesian-product iterator: one loop per key, nested in the
  order of the keys, each variant a dict with one value per key.
\<close>

fun iterate_hyperparameters :: "(string \<times> pyval list) list \<Rightarrow> variant list" where
  "iterate_hyperparameters [] = [[]]"
| "iterate_hyperparameters ((k, vs) # grid) =
     concat (map (\<lambda>v. map (\<lambda>d. (k, v) # d) (iterate_hyperparameters grid)) vs)"

text \<open>The two grids of \<^verbatim>\<open>__main__\<close>: triplet first, pairwise second.\<close>

definition triplet_grid :: "(string \<times> pyval list) list" where
  "triplet_grid =
     [(''model_name'', [PStr ''all-MiniLM-L6-v2'']),
      (''task'', [PStr ''CQADupstackEnglishRetrieval'']),
      (''split'', [PStr ''test'']),
      (''num_epochs'', [PInt 15]),
      (''lr'', [PFloat (1 / 100), PFloat (3 / 1000), PFloat (1 / 1000), PFloat (3 / 10000)]),
      (''batch_size'', [PInt 256]),
      (''triplet_margin'', [PFloat (1 / 3), PInt 1, PInt 3]),
      (''loss_type'', [PStr ''triplet'']),
      (''data_augmentation_threshold'', [PInt 5])]"

definition pairwise_grid :: "(string \<times> pyval list) list" where
  "pairwise_grid =
     [(''model_name'', [PStr ''all-MiniLM-L6-v2'']),
      (''task'', [PStr ''CQADupstackEnglishRetrieval'']),
      (''split'', [PStr ''test'']),
      (''num_epochs'', [PInt 15]),
      (''lr'', [PFloat (1 / 100), PFloat (3 / 1000), PFloat (1 / 1000), PFloat (3 / 10000)]),
      (''batch_size'', [PInt 256]),
      (''loss_type'', [PStr ''mse'', PStr ''bce'']),
      (''data_augmentation_threshold'', [PInt 5])]"

definition variants_list :: "(string \<times> pyval list) list list" where
  "variants_list = [triplet_grid, pairwise_grid]"

text \<open>
  \<^verbatim>\<open>[variant for variants in variants_list for variant in
  DeterministicHyperparameterSweeper(variants).iterate_hyperparameters()]\<close>
\<close>

definition expand :: "(string \<times> pyval list) list list \<Rightarrow> variant list" where
  "expand grids = concat (map iterate_hyperparameters grids)"

definition variants :: "variant list" where
  "variants = expand variants_list"

section \<open>The experiment: data\<close>

text \<open>
  The local variables of \<^verbatim>\<open>run_experiment\<close> that its nested functions close over
  (lines 21 to 32).
\<close>

record hparams =
  model_name :: pyval
  task :: pyval
  split :: pyval
  num_epochs :: pyval
  lr :: pyval
  batch_size :: pyval
  triplet_margin :: pyval
  loss_type :: pyval
  data_negative_sampling :: pyval
  data_synthetic_gen :: pyval
  data_augmentation_threshold :: pyval
  force :: pyval

text \<open>
  The \<^verbatim>\<open>SentenceTransformer\<close>: its name and the \<^verbatim>\<open>requires_grad\<close> flag of each of
  its parameters.
\<close>

record st_model =
  st_name :: pyval
  requires_grad :: "bool list"

text \<open>
  The three ways the launcher calls the \<^verbatim>\<open>LinearAdapter\<close> constructor: with no keyword,
  with \<^verbatim>\<open>query_only=True\<close>, with \<^verbatim>\<open>separate_embeddings=True\<close>.
\<close>

datatype adapter_args = Plain | Query_Only | Separate_Embeddings

text \<open>
  A state dict: \<^verbatim>\<open>model[0].weight\<close>, \<^verbatim>\<open>model[0].bias\<close> and the remaining tensors.
  Tensors are of an arbitrary type \<open>'w\<close>.
\<close>

type_synonym 'w state_dict = "'w \<times> 'w \<times> 'w list"

record 'w adapter =
  base :: st_model
  dim :: nat
  args :: adapter_args
  weight :: 'w
  bias :: 'w
  rest :: "'w list"

text \<open>
  The two dataset classes, with the arguments the launcher passes: task, split,
  \<^verbatim>\<open>negative_sampling\<close>, \<^verbatim>\<open>synthetic_data\<close>, \<^verbatim>\<open>data_augmentation_threshold\<close>
  (\<^verbatim>\<open>relevance_threshold=0.5\<close> and \<^verbatim>\<open>normalized=True\<close> are constants).
\<close>

datatype dataset =
    TripletDataset pyval pyval pyval pyval pyval
  | PairwiseScoreDataset pyval pyval pyval pyval pyval

text \<open>The keyword arguments of \<^verbatim>\<open>fit\<close>.\<close>

record fit_kwargs =
  kw_num_epochs :: pyval
  kw_lr :: pyval
  kw_batch_size :: pyval
  kw_loss_type :: pyval
  kw_margin :: pyval
  model_save_path :: string

datatype 'w target = BaseModel st_model | AdaptedModel "'w adapter"

text \<open>
  Every call that leaves the launcher, in program order.  \<open>Fit\<close> and \<open>LoadState\<close>
  carry the adapter as it is when the call is made.
\<close>

datatype 'w event =
    LoadModel pyval
  | Enter string string variant
  | Leave string string
  | NewAdapter "'w adapter"
  | Makedirs string
  | LoadState "'w adapter" string
  | Print string
  | NewDataset dataset
  | Fit "'w adapter" dataset fit_kwargs
  | Evaluate pyval string "'w target"
  | RecordDict row
  | DumpTabular
  | PlotComparison "(results \<times> string) list" string variant

text \<open>
  The state the launcher reads and writes: the paths that exist, the
  \<^verbatim>\<open>LocalLogger\<close> contexts entered (innermost first), the \<^verbatim>\<open>nonlocal dataset\<close>
  variable, and the calls made so far.
\<close>

record 'w world =
  files :: "string set"
  contexts :: "(string \<times> string) list"
  dataset :: "dataset option"
  trace :: "'w event list"

text \<open>
  What the libraries answer.  None of \<^verbatim>\<open>sentence_transformers\<close>, \<^verbatim>\<open>torch\<close>,
  \<^verbatim>\<open>mteb\<close>, \<^verbatim>\<open>launchkit\<close>, \<^verbatim>\<open>adapt_embed.utils\<close> and
  \<^verbatim>\<open>adapt_embed.models.linear.linear\<close> is part of the sources, so their answers are
  parameters of the model, and every such call is taken to return:
  \<^item> \<open>proj_dir\<close>: \<^verbatim>\<open>get_proj_dir()\<close>;
  \<^item> \<open>initial_requires_grad\<close>: the flags of a freshly loaded \<^verbatim>\<open>SentenceTransformer\<close>;
  \<^item> \<open>embedding_dimension\<close>: \<^verbatim>\<open>model.get_sentence_embedding_dimension()\<close>;
  \<^item> \<open>initial_state\<close>: the tensors of the \<open>n\<close>-th \<^verbatim>\<open>LinearAdapter\<close> constructed;
  \<^item> \<open>fit_outcome\<close>: the losses \<^verbatim>\<open>fit\<close> returns and the tensors it leaves in the
    adapter;
  \<^item> \<open>torch_load\<close>: the state dict stored at a path;
  \<^item> \<open>get_mteb_results\<close>: the results of an evaluation;
  \<^item> \<open>get_snapshot_dir\<close>: \<^verbatim>\<open>logger.get_snapshot_dir()\<close> under the contexts entered;
  \<^item> \<open>str_of\<close>: Python's \<^verbatim>\<open>str\<close> on a value that is not a string.
\<close>

record 'w env =
  proj_dir :: string
  initial_requires_grad :: "pyval \<Rightarrow> bool list"
  embedding_dimension :: "st_model \<Rightarrow> nat"
  initial_state :: "nat \<Rightarrow> 'w state_dict"
  fit_outcome :: "'w adapter \<Rightarrow> dataset \<Rightarrow> fit_kwargs \<Rightarrow> pyval list \<times> 'w state_dict"
  torch_load :: "string \<Rightarrow> 'w state_dict"
  get_mteb_results :: "pyval \<Rightarrow> string \<Rightarrow> 'w target \<Rightarrow> results"
  get_snapshot_dir :: "(string \<times> string) list \<Rightarrow> string"
  str_of :: "pyval \<Rightarrow> string"

definition exp_name :: string where
  "exp_name = ''linear''"

definition emit :: "'w event \<Rightarrow> 'w world \<Rightarrow> 'w world" where
  "emit e w = w\<lparr>trace := trace w @ [e]\<rparr>"

definition load_state_dict :: "'w state_dict \<Rightarrow> 'w adapter \<Rightarrow> 'w adapter" where
  "load_state_dict sd m = (case sd of (wt, b, r) \<Rightarrow> m\<lparr>weight := wt, bias := b, rest := r\<rparr>)"

section \<open>The experiment: operations\<close>

text \<open>Lines 21 to 32: the subscripted keys are required, the others have defaults.\<close>

definition read_variant :: "variant \<Rightarrow> error + hparams" where
  "read_variant v =
     (case subscript v ''model_name'' of Inl e \<Rightarrow> Inl e | Inr mn \<Rightarrow>
     (case subscript v ''task'' of Inl e \<Rightarrow> Inl e | Inr t \<Rightarrow>
     (case subscript v ''split'' of Inl e \<Rightarrow> Inl e | Inr sp \<Rightarrow>
     (case subscript v ''num_epochs'' of Inl e \<Rightarrow> Inl e | Inr n \<Rightarrow>
     (case subscript v ''lr'' of Inl e \<Rightarrow> Inl e | Inr r \<Rightarrow>
     (case subscript v ''batch_size'' of Inl e \<Rightarrow> Inl e | Inr b \<Rightarrow>
     (case subscript v ''loss_type'' of Inl e \<Rightarrow> Inl e | Inr lt \<Rightarrow>
        Inr \<lparr>model_name = mn, task = t, split = sp, num_epochs = n, lr = r, batch_size = b,
             triplet_margin = get_default v ''triplet_margin'' PNone,
             loss_type = lt,
             data_negative_sampling = get_default v ''data_negative_sampling'' (PBool True),
             data_synthetic_gen = get_default v ''data_synthetic_gen'' (PBool False),
             data_augmentation_threshold = get_default v ''data_augmentation_threshold'' (PInt 10),
             force = get_default v ''force'' (PBool False)\<rparr>)))))))"

text \<open>Lines 34 to 37.\<close>

definition validate :: "hparams \<Rightarrow> error option" where
  "validate hp =
     (if triplet_margin hp = PNone \<and> loss_type hp = PStr ''triplet''
      then Some (ValueError MissingTripletMargin)
      else if loss_type hp \<notin> set [PStr ''triplet'', PStr ''mse'', PStr ''bce'']
      then Some (ValueError (InvalidLossType (loss_type hp)))
      else None)"

text \<open>Lines 39 to 41.\<close>

definition sentence_transformer :: "'w env \<Rightarrow> pyval \<Rightarrow> st_model" where
  "sentence_transformer env n = \<lparr>st_name = n, requires_grad = initial_requires_grad env n\<rparr>"

definition freeze :: "st_model \<Rightarrow> st_model" where
  "freeze m = m\<lparr>requires_grad := map (\<lambda>_. False) (requires_grad m)\<rparr>"

text \<open>Lines 47 to 58: the dataset class follows the loss type.\<close>

definition new_dataset :: "hparams \<Rightarrow> dataset" where
  "new_dataset hp =
     (if loss_type hp = PStr ''triplet''
      then TripletDataset (task hp) (split hp) (data_negative_sampling hp)
             (data_synthetic_gen hp) (data_augmentation_threshold hp)
      else PairwiseScoreDataset (task hp) (split hp) (data_negative_sampling hp)
             (data_synthetic_gen hp) (data_augmentation_threshold hp))"

text \<open>Lines 44 to 59.\<close>

definition get_dataset :: "hparams \<Rightarrow> 'w world \<Rightarrow> dataset \<times> 'w world" where
  "get_dataset hp w =
     (case dataset w of
        Some ds \<Rightarrow> (ds, w)
      | None \<Rightarrow>
          (let ds = new_dataset hp
           in (ds, (emit (NewDataset ds) w)\<lparr>dataset := Some ds\<rparr>)))"

text \<open>Lines 61 and 62.\<close>

definition get_results :: "'w env \<Rightarrow> 'w adapter \<Rightarrow> pyval \<Rightarrow> 'w world \<Rightarrow> results \<times> 'w world" where
  "get_results env m t w =
     (let path = join (get_snapshot_dir env (contexts w)) [''results.json'']
      in (get_mteb_results env t path (AdaptedModel m),
          emit (Evaluate t path (AdaptedModel m)) w))"

text \<open>
  Line 74, the argument of \<^verbatim>\<open>record_dict\<close>: its three items are evaluated from left to
  right, and each can raise.
\<close>

definition final_row :: "hparams \<Rightarrow> pyval list \<Rightarrow> results \<Rightarrow> error + row" where
  "final_row hp losses res =
     (case minus_one (num_epochs hp) of Inl e \<Rightarrow> Inl e | Inr ep \<Rightarrow>
     (case last_item losses of Inl e \<Rightarrow> Inl e | Inr l \<Rightarrow>
     (case item res (task hp) of Inl e \<Rightarrow> Inl e | Inr by_split \<Rightarrow>
     (case item by_split (split hp) of Inl e \<Rightarrow> Inl e | Inr r \<Rightarrow>
        Inr (dict_display [(''epoch'', ep), (''loss'', l)] r)))))"

text \<open>\<^verbatim>\<open>logger.record_dict(r); logger.dump_tabular()\<close>\<close>

definition log_row :: "row \<Rightarrow> 'w world \<Rightarrow> 'w world" where
  "log_row r w = emit DumpTabular (emit (RecordDict r) w)"

text \<open>Lines 76 to 78.\<close>

definition log_rest :: "pyval list \<Rightarrow> 'w world \<Rightarrow> 'w world" where
  "log_rest losses w =
     foldl (\<lambda>w' (i, loss). log_row [(''epoch'', PInt (int i)), (''loss'', loss)] w') w
       (enumerate_from0 (butlast losses))"

text \<open>
  Lines 64 to 79.  The adapter is changed in place by \<^verbatim>\<open>load_state_dict\<close> and by
  \<^verbatim>\<open>fit\<close>, so it is returned beside the outcome.  \<^verbatim>\<open>fit\<close> gets
  \<^verbatim>\<open>model_save_path=weights_file\<close>, and the model takes it to leave a file there.
\<close>

definition train_and_evaluate ::
  "'w env \<Rightarrow> hparams \<Rightarrow> 'w adapter \<Rightarrow> string \<Rightarrow> string \<Rightarrow> bool \<Rightarrow> 'w world \<Rightarrow>
     (error + results) \<times> 'w adapter \<times> 'w world" where
  "train_and_evaluate env hp adapted_model weights_file adapter_type force_arg w0 =
     (let w1 = emit (Makedirs (dirname weights_file)) w0;
          (losses, m, w2) =
            (if weights_file \<in> files w1 \<and> \<not> force_arg
             then ([], load_state_dict (torch_load env weights_file) adapted_model,
                   emit (LoadState adapted_model weights_file) w1)
             else
               (let wp = emit (Print (''Training '' @ adapter_type @ '' Linear Adapter...'')) w1;
                    (ds, wd) = get_dataset hp wp;
                    kw = \<lparr>kw_num_epochs = num_epochs hp, kw_lr = lr hp,
                          kw_batch_size = batch_size hp, kw_loss_type = loss_type hp,
                          kw_margin = triplet_margin hp, model_save_path = weights_file\<rparr>;
                    (ls, sd) = fit_outcome env adapted_model ds kw
                in (ls, load_state_dict sd adapted_model,
                    (emit (Fit adapted_model ds kw) wd)\<lparr>files := insert weights_file (files wd)\<rparr>)));
          (res, w3) = get_results env m (task hp) w2
      in case final_row hp losses res of
           Inl e \<Rightarrow> (Inl e, m, w3)
         | Inr r \<Rightarrow> (Inr res, m, log_rest losses (log_row r w3)))"

text \<open>
  Modelled from the spec: \<^verbatim>\<open>LocalLogger\<close> of \<^verbatim>\<open>adapt_embed.utils\<close> is not part of
  the sources.  The spec speaks of per-variant directory and logging isolation: the
  context is entered, the body runs under it, and the context is left again whether the
  body returns or raises; an exception of the body goes on to the caller.
\<close>

definition local_logger ::
  "string \<Rightarrow> string \<Rightarrow> variant \<Rightarrow> ('w world \<Rightarrow> 'a \<times> 'w world) \<Rightarrow> 'w world \<Rightarrow> 'a \<times> 'w world" where
  "local_logger k v var body w =
     (let (r, w') = body (emit (Enter k v var) (w\<lparr>contexts := (k, v) # contexts w\<rparr>))
      in (r, emit (Leave k v) (w'\<lparr>contexts := contexts w\<rparr>)))"

text \<open>\<^verbatim>\<open>LinearAdapter(model, model.get_sentence_embedding_dimension(), ...).to(device)\<close>\<close>

definition linear_adapter ::
  "'w env \<Rightarrow> st_model \<Rightarrow> adapter_args \<Rightarrow> nat \<Rightarrow> 'w world \<Rightarrow> 'w adapter \<times> 'w world" where
  "linear_adapter env model a n w =
     (let m = (case initial_state env n of
                 (wt, b, r) \<Rightarrow>
                   \<lparr>base = model, dim = embedding_dimension env model, args = a,
                    weight = wt, bias = b, rest = r\<rparr>)
      in (m, emit (NewAdapter m) w))"

text \<open>
  Lines 97 to 99: \<^verbatim>\<open>copy_\<close> writes the source's values into the target's first layer.
\<close>

definition copy_first_layer :: "'w adapter \<Rightarrow> 'w adapter \<Rightarrow> 'w adapter" where
  "copy_first_layer src tgt = tgt\<lparr>weight := weight src, bias := bias src\<rparr>"

text \<open>Lines 84 to 87.\<close>

definition query_adapted_stage ::
  "'w env \<Rightarrow> hparams \<Rightarrow> st_model \<Rightarrow> variant \<Rightarrow> 'w world \<Rightarrow>
     ((error + results) \<times> 'w adapter) \<times> 'w world" where
  "query_adapted_stage env hp model var =
     local_logger ''adapter_type'' ''query_adapted'' var
       (\<lambda>w. let qa_weights_file =
                  join (get_snapshot_dir env (contexts w)) [''weights_query_adapted.pt''];
                (q_adapted_model, w1) = linear_adapter env model Query_Only 0 w;
                (r, m, w2) = train_and_evaluate env hp q_adapted_model qa_weights_file
                               ''Query-Adapted'' False w1
            in ((r, m), w2))"

text \<open>Lines 89 to 92.\<close>

definition adapted_stage ::
  "'w env \<Rightarrow> hparams \<Rightarrow> st_model \<Rightarrow> variant \<Rightarrow> 'w world \<Rightarrow>
     ((error + results) \<times> 'w adapter) \<times> 'w world" where
  "adapted_stage env hp model var =
     local_logger ''adapter_type'' ''adapted'' var
       (\<lambda>w. let weights_file = join (get_snapshot_dir env (contexts w)) [''weights.pt''];
                (adapted_model, w1) = linear_adapter env model Plain 1 w;
                (r, m, w2) = train_and_evaluate env hp adapted_model weights_file
                               ''Joint'' False w1
            in ((r, m), w2))"

text \<open>Lines 94 to 100.\<close>

definition query_first_stage ::
  "'w env \<Rightarrow> hparams \<Rightarrow> st_model \<Rightarrow> variant \<Rightarrow> 'w adapter \<Rightarrow> 'w world \<Rightarrow>
     ((error + results) \<times> 'w adapter) \<times> 'w world" where
  "query_first_stage env hp model var q_adapted_model =
     local_logger ''adapter_type'' ''query_first'' var
       (\<lambda>w. let query_first_weights_file =
                  join (get_snapshot_dir env (contexts w)) [''weights_query_first.pt''];
                (fresh, w1) = linear_adapter env model Plain 2 w;
                query_first_adapted_model = copy_first_layer q_adapted_model fresh;
                (r, m, w2) = train_and_evaluate env hp query_first_adapted_model
                               query_first_weights_file ''Query-First'' False w1
            in ((r, m), w2))"

text \<open>Lines 102 to 105.\<close>

definition separate_stage ::
  "'w env \<Rightarrow> hparams \<Rightarrow> st_model \<Rightarrow> variant \<Rightarrow> 'w world \<Rightarrow>
     ((error + results) \<times> 'w adapter) \<times> 'w world" where
  "separate_stage env hp model var =
     local_logger ''adapter_type'' ''separate'' var
       (\<lambda>w. let separate_weights_file =
                  join (get_snapshot_dir env (contexts w)) [''weights_separate.pt''];
                (separate_adapted_model, w1) = linear_adapter env model Separate_Embeddings 3 w;
                (r, m, w2) = train_and_evaluate env hp separate_adapted_model
                               separate_weights_file ''Separate'' False w1
            in ((r, m), w2))"

text \<open>
  Line 107: \<^verbatim>\<open>os.path.join\<close> takes strings only; the f-string formats any value.
\<close>

definition format_value :: "'w env \<Rightarrow> pyval \<Rightarrow> string" where
  "format_value env v = (case v of PStr s \<Rightarrow> s | _ \<Rightarrow> str_of env v)"

definition baseline_path :: "'w env \<Rightarrow> hparams \<Rightarrow> error + string" where
  "baseline_path env hp =
     (case model_name hp of
        PStr n \<Rightarrow> Inr (join (proj_dir env) [''results'', n, format_value env (task hp) @ ''.json''])
      | _ \<Rightarrow> Inl TypeError)"

text \<open>Lines 107 to 113.\<close>

definition plot_stage ::
  "'w env \<Rightarrow> hparams \<Rightarrow> st_model \<Rightarrow> variant \<Rightarrow> results \<Rightarrow> results \<Rightarrow> results \<Rightarrow> results \<Rightarrow>
     'w world \<Rightarrow> (error + unit) \<times> 'w world" where
  "plot_stage env hp model var r_query_adapted r_adapted r_query_first r_separate w =
     (case baseline_path env hp of
        Inl e \<Rightarrow> (Inl e, w)
      | Inr path \<Rightarrow>
          (let baseline_results = get_mteb_results env (task hp) path (BaseModel model);
               w1 = emit (Evaluate (task hp) path (BaseModel model)) w
           in (Inr (),
               emit (PlotComparison
                       [(baseline_results, ''Baseline''),
                        (r_adapted, ''Linear (Joint)''),
                        (r_query_adapted, ''Linear (Query-Only)''),
                        (r_query_first, ''Linear (Query-First)''),
                        (r_separate, ''Linear (Separate)'')]
                       exp_name var) w1)))"

text \<open>
  Lines 82 to 113, after validation: the four stages in the order of the source; an
  exception of a stage ends the run.
\<close>

definition run_stages ::
  "'w env \<Rightarrow> hparams \<Rightarrow> st_model \<Rightarrow> variant \<Rightarrow> 'w world \<Rightarrow> (error + unit) \<times> 'w world" where
  "run_stages env hp model var w0 =
     (case query_adapted_stage env hp model var w0 of
        ((Inl e, _), w1) \<Rightarrow> (Inl e, w1)
      | ((Inr r_qa, q_adapted_model), w1) \<Rightarrow>
     (case adapted_stage env hp model var w1 of
        ((Inl e, _), w2) \<Rightarrow> (Inl e, w2)
      | ((Inr r_a, _), w2) \<Rightarrow>
     (case query_first_stage env hp model var q_adapted_model w2 of
        ((Inl e, _), w3) \<Rightarrow> (Inl e, w3)
      | ((Inr r_qf, _), w3) \<Rightarrow>
     (case separate_stage env hp model var w3 of
        ((Inl e, _), w4) \<Rightarrow> (Inl e, w4)
      | ((Inr r_s, _), w4) \<Rightarrow> plot_stage env hp model var r_qa r_a r_qf r_s w4))))"

text \<open>Lines 20 to 113.\<close>

definition run_experiment :: "'w env \<Rightarrow> variant \<Rightarrow> 'w world \<Rightarrow> (error + unit) \<times> 'w world" where
  "run_experiment env var w =
     (case read_variant var of
        Inl e \<Rightarrow> (Inl e, w)
      | Inr hp \<Rightarrow>
          (case validate hp of
             Some e \<Rightarrow> (Inl e, w)
           | None \<Rightarrow>
               (let model = freeze (sentence_transformer env (model_name hp));
                    w0 = (emit (LoadModel (model_name hp)) w)\<lparr>dataset := None\<rparr>
                in run_stages env hp model var w0)))"

section \<open>A concrete run\<close>

text \<open>
  A small environment with numbers for tensors, the first variant of the triplet grid,
  and a world where nothing has run yet.  They instantiate the theorems below.
\<close>

definition example_env :: "nat env" where
  "example_env =
     \<lparr>proj_dir = ''/proj'',
      initial_requires_grad = (\<lambda>_. [True, True]),
      embedding_dimension = (\<lambda>_. 384),
      initial_state = (\<lambda>n. (n, n + 10, [])),
      fit_outcome = (\<lambda>a ds kw. ([PFloat (1 / 2), PFloat (1 / 4), PFloat (1 / 8)],
                                 (weight a + 100, bias a + 100, []))),
      torch_load = (\<lambda>p. (7, 8, [])),
      get_mteb_results = (\<lambda>t p m. [(t, [(PStr ''test'', [(''ndcg_at_10'', PFloat (3 / 5))])])]),
      get_snapshot_dir = (\<lambda>ctx. case ctx of [] \<Rightarrow> ''/logs'' | (k, v) # _ \<Rightarrow> ''/logs/'' @ v),
      str_of = (\<lambda>_. ''?'')\<rparr>"

definition example_variant :: variant where
  "example_variant =
     [(''model_name'', PStr ''all-MiniLM-L6-v2''),
      (''task'', PStr ''CQADupstackEnglishRetrieval''),
      (''split'', PStr ''test''),
      (''num_epochs'', PInt 15),
      (''lr'', PFloat (1 / 100)),
      (''batch_size'', PInt 256),
      (''triplet_margin'', PFloat (1 / 3)),
      (''loss_type'', PStr ''triplet''),
      (''data_augmentation_threshold'', PInt 5)]"

definition example_hparams :: hparams where
  "example_hparams =
     \<lparr>model_name = PStr ''all-MiniLM-L6-v2'', task = PStr ''CQADupstackEnglishRetrieval'',
      split = PStr ''test'', num_epochs = PInt 15, lr = PFloat (1 / 100), batch_size = PInt 256,
      triplet_margin = PFloat (1 / 3), loss_type = PStr ''triplet'',
      data_negative_sampling = PBool True, data_synthetic_gen = PBool False,
      data_augmentation_threshold = PInt 5, force = PBool False\<rparr>"

definition example_world :: "nat world" where
  "example_world = \<lparr>files = {}, contexts = [], dataset = None, trace = []\<rparr>"

definition example_adapter :: "nat adapter" where
  "example_adapter =
     \<lparr>base = \<lparr>st_name = PStr ''all-MiniLM-L6-v2'', requires_grad = [False, False]\<rparr>,
      dim = 384, args = Query_Only, weight = 0, bias = 10, rest = []\<rparr>"

section \<open>The calls of one training, written out\<close>

text \<open>
  What \<^verbatim>\<open>train_and_evaluate\<close> returns and the calls it makes, as functions of what it
  reads of the world: the files that exist, the dataset variable and the contexts
  entered.  Lemma \<open>train_and_evaluate_eq\<close> proves that they describe the operation.
\<close>

definition row_events :: "(nat \<times> pyval) list \<Rightarrow> 'w event list" where
  "row_events xs =
     concat (map (\<lambda>(i, l). [RecordDict [(''epoch'', PInt (int i)), (''loss'', l)], DumpTabular]) xs)"

definition fit_kw :: "hparams \<Rightarrow> string \<Rightarrow> fit_kwargs" where
  "fit_kw hp weights_file =
     \<lparr>kw_num_epochs = num_epochs hp, kw_lr = lr hp, kw_batch_size = batch_size hp,
      kw_loss_type = loss_type hp, kw_margin = triplet_margin hp, model_save_path = weights_file\<rparr>"

definition resumes :: "string set \<Rightarrow> string \<Rightarrow> bool \<Rightarrow> bool" where
  "resumes fs weights_file force_arg = (weights_file \<in> fs \<and> \<not> force_arg)"

definition dataset_used :: "hparams \<Rightarrow> dataset option \<Rightarrow> dataset" where
  "dataset_used hp dso = (case dso of Some ds \<Rightarrow> ds | None \<Rightarrow> new_dataset hp)"

definition tae_losses ::
  "'w env \<Rightarrow> hparams \<Rightarrow> 'w adapter \<Rightarrow> string \<Rightarrow> bool \<Rightarrow> string set \<Rightarrow> dataset option \<Rightarrow> pyval list" where
  "tae_losses env hp m weights_file force_arg fs dso =
     (if resumes fs weights_file force_arg then []
      else fst (fit_outcome env m (dataset_used hp dso) (fit_kw hp weights_file)))"

definition tae_model ::
  "'w env \<Rightarrow> hparams \<Rightarrow> 'w adapter \<Rightarrow> string \<Rightarrow> bool \<Rightarrow> string set \<Rightarrow> dataset option \<Rightarrow> 'w adapter" where
  "tae_model env hp m weights_file force_arg fs dso =
     load_state_dict
       (if resumes fs weights_file force_arg then torch_load env weights_file
        else snd (fit_outcome env m (dataset_used hp dso) (fit_kw hp weights_file))) m"

definition results_path :: "'w env \<Rightarrow> (string \<times> string) list \<Rightarrow> string" where
  "results_path env ctx = join (get_snapshot_dir env ctx) [''results.json'']"

definition tae_results ::
  "'w env \<Rightarrow> hparams \<Rightarrow> 'w adapter \<Rightarrow> string \<Rightarrow> bool \<Rightarrow> string set \<Rightarrow> dataset option \<Rightarrow>
     (string \<times> string) list \<Rightarrow> results" where
  "tae_results env hp m weights_file force_arg fs dso ctx =
     get_mteb_results env (task hp) (results_path env ctx)
       (AdaptedModel (tae_model env hp m weights_file force_arg fs dso))"

definition tae_row ::
  "'w env \<Rightarrow> hparams \<Rightarrow> 'w adapter \<Rightarrow> string \<Rightarrow> bool \<Rightarrow> string set \<Rightarrow> dataset option \<Rightarrow>
     (string \<times> string) list \<Rightarrow> error + row" where
  "tae_row env hp m weights_file force_arg fs dso ctx =
     final_row hp (tae_losses env hp m weights_file force_arg fs dso)
       (tae_results env hp m weights_file force_arg fs dso ctx)"

definition tae_outcome ::
  "'w env \<Rightarrow> hparams \<Rightarrow> 'w adapter \<Rightarrow> string \<Rightarrow> bool \<Rightarrow> string set \<Rightarrow> dataset option \<Rightarrow>
     (string \<times> string) list \<Rightarrow> error + results" where
  "tae_outcome env hp m weights_file force_arg fs dso ctx =
     (case tae_row env hp m weights_file force_arg fs dso ctx of
        Inl e \<Rightarrow> Inl e
      | Inr _ \<Rightarrow> Inr (tae_results env hp m weights_file force_arg fs dso ctx))"

definition train_events ::
  "hparams \<Rightarrow> 'w adapter \<Rightarrow> string \<Rightarrow> string \<Rightarrow> bool \<Rightarrow> string set \<Rightarrow> dataset option \<Rightarrow>
     'w event list" where
  "train_events hp m weights_file atype force_arg fs dso =
     (if resumes fs weights_file force_arg then [LoadState m weights_file]
      else Print (''Training '' @ atype @ '' Linear Adapter...'') #
           (if dso = None then [NewDataset (new_dataset hp)] else []) @
           [Fit m (dataset_used hp dso) (fit_kw hp weights_file)])"

definition log_events ::
  "'w env \<Rightarrow> hparams \<Rightarrow> 'w adapter \<Rightarrow> string \<Rightarrow> bool \<Rightarrow> string set \<Rightarrow> dataset option \<Rightarrow>
     (string \<times> string) list \<Rightarrow> 'w event list" where
  "log_events env hp m weights_file force_arg fs dso ctx =
     (case tae_row env hp m weights_file force_arg fs dso ctx of
        Inl e \<Rightarrow> []
      | Inr r \<Rightarrow> RecordDict r # DumpTabular #
          row_events (enumerate_from0 (butlast (tae_losses env hp m weights_file force_arg fs dso))))"

definition tae_events ::
  "'w env \<Rightarrow> hparams \<Rightarrow> 'w adapter \<Rightarrow> string \<Rightarrow> string \<Rightarrow> bool \<Rightarrow> string set \<Rightarrow> dataset option \<Rightarrow>
     (string \<times> string) list \<Rightarrow> 'w event list" where
  "tae_events env hp m weights_file atype force_arg fs dso ctx =
     Makedirs (dirname weights_file) #
     train_events hp m weights_file atype force_arg fs dso @
     Evaluate (task hp) (results_path env ctx)
       (AdaptedModel (tae_model env hp m weights_file force_arg fs dso)) #
     log_events env hp m weights_file force_arg fs dso ctx"

definition files_after :: "string set \<Rightarrow> string \<Rightarrow> bool \<Rightarrow> string set" where
  "files_after fs weights_file force_arg =
     (if resumes fs weights_file force_arg then fs else insert weights_file fs)"

definition dataset_after :: "hparams \<Rightarrow> string set \<Rightarrow> dataset option \<Rightarrow> string \<Rightarrow> bool \<Rightarrow> dataset option" where
  "dataset_after hp fs dso weights_file force_arg =
     (if resumes fs weights_file force_arg then dso else Some (dataset_used hp dso))"

text \<open>
  The new events of a trace, and the rows the tabular log receives: each
  \<^verbatim>\<open>dump_tabular\<close> writes the dict recorded just before it.
\<close>

definition new_events :: "'w world \<Rightarrow> 'w world \<Rightarrow> 'w event list" where
  "new_events w w' = drop (length (trace w)) (trace w')"

fun tabular_rows :: "'w event list \<Rightarrow> row list" where
  "tabular_rows (RecordDict r # DumpTabular # evs) = r # tabular_rows evs"
| "tabular_rows (e # evs) = tabular_rows evs"
| "tabular_rows [] = []"

text \<open>The loss type of each variant of a list.\<close>

definition loss_types :: "variant list \<Rightarrow> pyval option list" where
  "loss_types vs = map (\<lambda>v. map_of v ''loss_type'') vs"

section \<open>The calls of a run, written out\<close>

text \<open>
  The four blocks of lines 84 to 105 have one shape: enter the context, name the
  weights file, build an adapter, prepare it, train and evaluate it.  The worlds, outcomes
  and events of the four stages of a run are named after the stage.
\<close>

definition stage ::
  "'w env \<Rightarrow> hparams \<Rightarrow> st_model \<Rightarrow> variant \<Rightarrow> string \<Rightarrow> string \<Rightarrow> adapter_args \<Rightarrow> nat \<Rightarrow>
     ('w adapter \<Rightarrow> 'w adapter) \<Rightarrow> string \<Rightarrow> 'w world \<Rightarrow>
     ((error + results) \<times> 'w adapter) \<times> 'w world" where
  "stage env hp model var v fname a n prep atype =
     local_logger ''adapter_type'' v var
       (\<lambda>w. let weights_file = join (get_snapshot_dir env (contexts w)) [fname];
                (fresh, w1) = linear_adapter env model a n w;
                (r, m, w2) = train_and_evaluate env hp (prep fresh) weights_file atype False w1
            in ((r, m), w2))"

definition fresh_adapter :: "'w env \<Rightarrow> st_model \<Rightarrow> adapter_args \<Rightarrow> nat \<Rightarrow> 'w adapter" where
  "fresh_adapter env model a n =
     (case initial_state env n of
        (wt, b, r) \<Rightarrow>
          \<lparr>base = model, dim = embedding_dimension env model, args = a,
           weight = wt, bias = b, rest = r\<rparr>)"

definition stage_ctx :: "(string \<times> string) list \<Rightarrow> string \<Rightarrow> (string \<times> string) list" where
  "stage_ctx ctx0 v = (''adapter_type'', v) # ctx0"

definition weights_path :: "'w env \<Rightarrow> (string \<times> string) list \<Rightarrow> string \<Rightarrow> string \<Rightarrow> string" where
  "weights_path env ctx0 v fname = join (get_snapshot_dir env (stage_ctx ctx0 v)) [fname]"

definition stage_events ::
  "'w env \<Rightarrow> hparams \<Rightarrow> st_model \<Rightarrow> variant \<Rightarrow> string \<Rightarrow> string \<Rightarrow> adapter_args \<Rightarrow> nat \<Rightarrow>
     ('w adapter \<Rightarrow> 'w adapter) \<Rightarrow> string \<Rightarrow> string set \<Rightarrow> dataset option \<Rightarrow>
     (string \<times> string) list \<Rightarrow> 'w event list" where
  "stage_events env hp model var v fname a n prep atype fs dso ctx0 =
     Enter ''adapter_type'' v var # NewAdapter (fresh_adapter env model a n) #
     tae_events env hp (prep (fresh_adapter env model a n)) (weights_path env ctx0 v fname)
       atype False fs dso (stage_ctx ctx0 v) @
     [Leave ''adapter_type'' v]"


definition qa_path :: "'w env \<Rightarrow> 'w world \<Rightarrow> string" where
  "qa_path env w0 = weights_path env (contexts w0) ''query_adapted'' ''weights_query_adapted.pt''"

definition joint_path :: "'w env \<Rightarrow> 'w world \<Rightarrow> string" where
  "joint_path env w0 = weights_path env (contexts w0) ''adapted'' ''weights.pt''"

definition qf_path :: "'w env \<Rightarrow> 'w world \<Rightarrow> string" where
  "qf_path env w0 = weights_path env (contexts w0) ''query_first'' ''weights_query_first.pt''"

definition sep_path :: "'w env \<Rightarrow> 'w world \<Rightarrow> string" where
  "sep_path env w0 = weights_path env (contexts w0) ''separate'' ''weights_separate.pt''"

definition qa_outcome :: "'w env \<Rightarrow> hparams \<Rightarrow> st_model \<Rightarrow> variant \<Rightarrow> 'w world \<Rightarrow> error + results" where
  "qa_outcome env hp model var w0 = fst (fst (query_adapted_stage env hp model var w0))"

definition qa_model :: "'w env \<Rightarrow> hparams \<Rightarrow> st_model \<Rightarrow> variant \<Rightarrow> 'w world \<Rightarrow> 'w adapter" where
  "qa_model env hp model var w0 = snd (fst (query_adapted_stage env hp model var w0))"

definition qa_world :: "'w env \<Rightarrow> hparams \<Rightarrow> st_model \<Rightarrow> variant \<Rightarrow> 'w world \<Rightarrow> 'w world" where
  "qa_world env hp model var w0 = snd (query_adapted_stage env hp model var w0)"

definition joint_outcome :: "'w env \<Rightarrow> hparams \<Rightarrow> st_model \<Rightarrow> variant \<Rightarrow> 'w world \<Rightarrow> error + results" where
  "joint_outcome env hp model var w0 =
     fst (fst (adapted_stage env hp model var (qa_world env hp model var w0)))"

definition joint_world :: "'w env \<Rightarrow> hparams \<Rightarrow> st_model \<Rightarrow> variant \<Rightarrow> 'w world \<Rightarrow> 'w world" where
  "joint_world env hp model var w0 =
     snd (adapted_stage env hp model var (qa_world env hp model var w0))"

definition qf_outcome :: "'w env \<Rightarrow> hparams \<Rightarrow> st_model \<Rightarrow> variant \<Rightarrow> 'w world \<Rightarrow> error + results" where
  "qf_outcome env hp model var w0 =
     fst (fst (query_first_stage env hp model var (qa_model env hp model var w0)
                 (joint_world env hp model var w0)))"

definition qf_world :: "'w env \<Rightarrow> hparams \<Rightarrow> st_model \<Rightarrow> variant \<Rightarrow> 'w world \<Rightarrow> 'w world" where
  "qf_world env hp model var w0 =
     snd (query_first_stage env hp model var (qa_model env hp model var w0)
            (joint_world env hp model var w0))"

definition sep_outcome :: "'w env \<Rightarrow> hparams \<Rightarrow> st_model \<Rightarrow> variant \<Rightarrow> 'w world \<Rightarrow> error + results" where
  "sep_outcome env hp model var w0 =
     fst (fst (separate_stage env hp model var (qf_world env hp model var w0)))"

definition sep_world :: "'w env \<Rightarrow> hparams \<Rightarrow> st_model \<Rightarrow> variant \<Rightarrow> 'w world \<Rightarrow> 'w world" where
  "sep_world env hp model var w0 =
     snd (separate_stage env hp model var (qf_world env hp model var w0))"

definition qa_events :: "'w env \<Rightarrow> hparams \<Rightarrow> st_model \<Rightarrow> variant \<Rightarrow> 'w world \<Rightarrow> 'w event list" where
  "qa_events env hp model var w0 =
     stage_events env hp model var ''query_adapted'' ''weights_query_adapted.pt'' Query_Only 0
       (\<lambda>m. m) ''Query-Adapted'' (files w0) (dataset w0) (contexts w0)"

definition joint_events :: "'w env \<Rightarrow> hparams \<Rightarrow> st_model \<Rightarrow> variant \<Rightarrow> 'w world \<Rightarrow> 'w event list" where
  "joint_events env hp model var w0 =
     stage_events env hp model var ''adapted'' ''weights.pt'' Plain 1 (\<lambda>m. m) ''Joint''
       (files (qa_world env hp model var w0)) (dataset (qa_world env hp model var w0)) (contexts w0)"

definition qf_events :: "'w env \<Rightarrow> hparams \<Rightarrow> st_model \<Rightarrow> variant \<Rightarrow> 'w world \<Rightarrow> 'w event list" where
  "qf_events env hp model var w0 =
     stage_events env hp model var ''query_first'' ''weights_query_first.pt'' Plain 2
       (copy_first_layer (qa_model env hp model var w0)) ''Query-First''
       (files (joint_world env hp model var w0)) (dataset (joint_world env hp model var w0))
       (contexts w0)"

definition sep_events :: "'w env \<Rightarrow> hparams \<Rightarrow> st_model \<Rightarrow> variant \<Rightarrow> 'w world \<Rightarrow> 'w event list" where
  "sep_events env hp model var w0 =
     stage_events env hp model var ''separate'' ''weights_separate.pt'' Separate_Embeddings 3
       (\<lambda>m. m) ''Separate''
       (files (qf_world env hp model var w0)) (dataset (qf_world env hp model var w0))
       (contexts w0)"

definition plot_events ::
  "'w env \<Rightarrow> hparams \<Rightarrow> st_model \<Rightarrow> variant \<Rightarrow> results \<Rightarrow> results \<Rightarrow> results \<Rightarrow> results \<Rightarrow>
     'w event list" where
  "plot_events env hp model var r_query_adapted r_adapted r_query_first r_separate =
     (case baseline_path env hp of
        Inl e \<Rightarrow> []
      | Inr path \<Rightarrow>
          [Evaluate (task hp) path (BaseModel model),
           PlotComparison
             [(get_mteb_results env (task hp) path (BaseModel model), ''Baseline''),
              (r_adapted, ''Linear (Joint)''),
              (r_query_adapted, ''Linear (Query-Only)''),
              (r_query_first, ''Linear (Query-First)''),
              (r_separate, ''Linear (Separate)'')]
             exp_name var])"

definition stages_events :: "'w env \<Rightarrow> hparams \<Rightarrow> st_model \<Rightarrow> variant \<Rightarrow> 'w world \<Rightarrow> 'w event list" where
  "stages_events env hp model var w0 =
     qa_events env hp model var w0 @
     (case qa_outcome env hp model var w0 of
        Inl e \<Rightarrow> []
      | Inr x1 \<Rightarrow>
     joint_events env hp model var w0 @
     (case joint_outcome env hp model var w0 of
        Inl e \<Rightarrow> []
      | Inr x2 \<Rightarrow>
     qf_events env hp model var w0 @
     (case qf_outcome env hp model var w0 of
        Inl e \<Rightarrow> []
      | Inr x3 \<Rightarrow>
     sep_events env hp model var w0 @
     (case sep_outcome env hp model var w0 of
        Inl e \<Rightarrow> []
      | Inr x4 \<Rightarrow> plot_events env hp model var x1 x2 x3 x4))))"

definition start_world :: "hparams \<Rightarrow> 'w world \<Rightarrow> 'w world" where
  "start_world hp w = (emit (LoadModel (model_name hp)) w)\<lparr>dataset := None\<rparr>"

definition frozen_model :: "'w env \<Rightarrow> hparams \<Rightarrow> st_model" where
  "frozen_model env hp = freeze (sentence_transformer env (model_name hp))"

definition run_events :: "'w env \<Rightarrow> variant \<Rightarrow> 'w world \<Rightarrow> 'w event list" where
  "run_events env var w =
     (case read_variant var of
        Inl e \<Rightarrow> []
      | Inr hp \<Rightarrow>
          (case validate hp of
             Some e \<Rightarrow> []
           | None \<Rightarrow>
               LoadModel (model_name hp) #
               stages_events env hp (frozen_model env hp) var (start_world hp w)))"

text \<open>The keys that lines 21 to 28 read with a subscript.\<close>

definition required_keys :: "string list" where
  "required_keys =
     [''model_name'', ''task'', ''split'', ''num_epochs'', ''lr'', ''batch_size'', ''loss_type'']"

definition example_invalid_variant :: variant where
  "example_invalid_variant =
     [(''model_name'', PStr ''all-MiniLM-L6-v2''),
      (''task'', PStr ''CQADupstackEnglishRetrieval''),
      (''split'', PStr ''test''),
      (''num_epochs'', PInt 15),
      (''lr'', PFloat (1 / 100)),
      (''batch_size'', PInt 256),
      (''loss_type'', PStr ''cosine''),
      (''data_augmentation_threshold'', PInt 5)]"

text \<open>
  The base model an event works on, and what it means for it to be frozen: every
  \<^verbatim>\<open>requires_grad\<close> flag is \<^verbatim>\<open>False\<close>.
\<close>

fun event_base :: "'w event \<Rightarrow> st_model option" where
  "event_base (NewAdapter a) = Some (base a)"
| "event_base (LoadState a p) = Some (base a)"
| "event_base (Fit a ds kw) = Some (base a)"
| "event_base (Evaluate t p (AdaptedModel a)) = Some (base a)"
| "event_base (Evaluate t p (BaseModel m)) = Some m"
| "event_base _ = None"

definition frozen :: "st_model \<Rightarrow> bool" where
  "frozen m = (requires_grad m = replicate (length (requires_grad m)) False)"

text \<open>
  The datasets a trace constructs (\<^verbatim>\<open>get_dataset\<close> reaching line 48 or 54) and the
  datasets it hands to \<^verbatim>\<open>fit\<close>, in order.  The dataset variable is in a state the
  memoisation keeps when it is empty or holds the dataset of the variant.
\<close>

fun built :: "'w event \<Rightarrow> dataset list" where
  "built (NewDataset ds) = [ds]"
| "built _ = []"

fun fitted :: "'w event \<Rightarrow> dataset list" where
  "fitted (Fit a ds kw) = [ds]"
| "fitted _ = []"

definition datasets_built :: "'w event list \<Rightarrow> dataset list" where
  "datasets_built evs = concat (map built evs)"

definition datasets_fitted :: "'w event list \<Rightarrow> dataset list" where
  "datasets_fitted evs = concat (map fitted evs)"

definition memo_ok :: "hparams \<Rightarrow> dataset option \<Rightarrow> bool" where
  "memo_ok hp dso = (dso = None \<or> dso = Some (new_dataset hp))"

text \<open>
  What a trace does to adapters, in order: \<^verbatim>\<open>fit\<close> with the file name it saves to,
  \<^verbatim>\<open>load_state_dict\<close> with the file name it reads, and the evaluation of an adapted
  model; each with the constructor arguments of the adapter.
\<close>

datatype step = Trained adapter_args string | Loaded adapter_args string | Evaluated adapter_args

fun step_of :: "'w event \<Rightarrow> step list" where
  "step_of (Fit a ds kw) = [Trained (args a) (basename (model_save_path kw))]"
| "step_of (LoadState a p) = [Loaded (args a) (basename p)]"
| "step_of (Evaluate t p (AdaptedModel a)) = [Evaluated (args a)]"
| "step_of _ = []"

definition steps :: "'w event list \<Rightarrow> step list" where
  "steps evs = concat (map step_of evs)"

text \<open>
  The libraries answer as a training needs: \<^verbatim>\<open>num_epochs\<close> is a number, \<^verbatim>\<open>fit\<close>
  returns at least one loss, and the results of an evaluation have an entry for the task
  and, in it, one for the split.
\<close>

definition libraries_answer :: "'w env \<Rightarrow> hparams \<Rightarrow> bool" where
  "libraries_answer env hp \<longleftrightarrow>
     (\<exists>ep. minus_one (num_epochs hp) = Inr ep)
     \<and> (\<forall>a ds kw. fst (fit_outcome env a ds kw) \<noteq> [])
     \<and> (\<forall>p m. \<exists>by_split r. item (get_mteb_results env (task hp) p m) (task hp) = Inr by_split
                     \<and> item by_split (split hp) = Inr r)"

text \<open>The argument lists of the calls of \<^verbatim>\<open>plot_comparison\<close> in a trace.\<close>

fun plot_of :: "'w event \<Rightarrow> (results \<times> string) list list" where
  "plot_of (PlotComparison rs n v) = [rs]"
| "plot_of _ = []"

definition plots :: "'w event list \<Rightarrow> (results \<times> string) list list" where
  "plots evs = concat (map plot_of evs)"

text \<open>
  The adapter a call starts to work on, as it is at that moment, with its weights file:
  the receiver of \<^verbatim>\<open>fit\<close> or of \<^verbatim>\<open>load_state_dict\<close>, the first call of
  \<^verbatim>\<open>train_and_evaluate\<close> that touches the adapter.
\<close>

fun started_with :: "'w event \<Rightarrow> ('w adapter \<times> string) list" where
  "started_with (Fit a ds kw) = [(a, model_save_path kw)]"
| "started_with (LoadState a p) = [(a, p)]"
| "started_with _ = []"

text \<open>
  Each event of a trace with the \<^verbatim>\<open>LocalLogger\<close> contexts that are entered when it
  happens; the contexts a trace enters; the weights file a call reads or writes; the calls
  that write to the tabular log.  The table \<open>stage_files\<close> has, for each value of
  \<^verbatim>\<open>adapter_type\<close>, the name of its weights file (lines 84 to 103).  An event is
  isolated when the weights file it touches is the file of the \<^verbatim>\<open>adapter_type\<close>
  context it runs in, under the snapshot directory of that context, and when it logs
  only inside such a context.
\<close>

fun stamp :: "(string \<times> string) list \<Rightarrow> 'w event list \<Rightarrow> ((string \<times> string) list \<times> 'w event) list" where
  "stamp c [] = []"
| "stamp c (Enter k v var # evs) = (c, Enter k v var) # stamp ((k, v) # c) evs"
| "stamp c (Leave k v # evs) = (tl c, Leave k v) # stamp (tl c) evs"
| "stamp c (e # evs) = (c, e) # stamp c evs"

fun bracket :: "'w event \<Rightarrow> bool" where
  "bracket (Enter k v var) = True"
| "bracket (Leave k v) = True"
| "bracket _ = False"

fun entered :: "'w event \<Rightarrow> (string \<times> string) list" where
  "entered (Enter k v var) = [(k, v)]"
| "entered _ = []"

fun weights_file_of :: "'w event \<Rightarrow> string list" where
  "weights_file_of (Fit a ds kw) = [model_save_path kw]"
| "weights_file_of (LoadState a p) = [p]"
| "weights_file_of _ = []"

fun logs :: "'w event \<Rightarrow> bool" where
  "logs (RecordDict r) = True"
| "logs DumpTabular = True"
| "logs _ = False"

definition stage_files :: "(string \<times> string) list" where
  "stage_files =
     [(''query_adapted'', ''weights_query_adapted.pt''), (''adapted'', ''weights.pt''),
      (''query_first'', ''weights_query_first.pt''), (''separate'', ''weights_separate.pt'')]"

definition isolated :: "'w env \<Rightarrow> (string \<times> string) list \<Rightarrow> (string \<times> string) list \<times> 'w event \<Rightarrow> bool" where
  "isolated env c0 x =
     (case x of (c, e) \<Rightarrow>
        (\<forall>p \<in> set (weights_file_of e).
           \<exists>(v, f) \<in> set stage_files.
             c = (''adapter_type'', v) # c0 \<and> p = join (get_snapshot_dir env c) [f])
      \<and> (logs e \<longrightarrow> (\<exists>(v, f) \<in> set stage_files. c = (''adapter_type'', v) # c0)))"

definition contexts_entered :: "'w event list \<Rightarrow> (string \<times> string) list" where
  "contexts_entered evs = concat (map entered evs)"

section \<open>Facts about one training\<close>

lemma emit_eq: "emit e w = w\<lparr>trace := trace w @ [e]\<rparr>"
  by (simp add: emit_def)

lemma log_row_eq: "log_row r w = w\<lparr>trace := trace w @ [RecordDict r, DumpTabular]\<rparr>"
  by (simp add: log_row_def emit_def)

lemma foldl_log_row:
  "foldl (\<lambda>w' (i, loss). log_row [(''epoch'', PInt (int i)), (''loss'', loss)] w') w xs
     = w\<lparr>trace := trace w @ row_events xs\<rparr>"
  by (induction xs arbitrary: w) (auto simp: row_events_def log_row_eq)

lemma log_rest_eq:
  "log_rest losses w = w\<lparr>trace := trace w @ row_events (enumerate_from0 (butlast losses))\<rparr>"
  by (simp add: log_rest_def foldl_log_row)

lemma get_dataset_eq:
  "get_dataset hp w =
     (dataset_used hp (dataset w),
      (case dataset w of
         Some ds \<Rightarrow> w
       | None \<Rightarrow> w\<lparr>dataset := Some (new_dataset hp),
                    trace := trace w @ [NewDataset (new_dataset hp)]\<rparr>))"
  by (simp add: get_dataset_def dataset_used_def emit_eq Let_def split: option.splits)

lemma train_and_evaluate_eq:
  "train_and_evaluate env hp m weights_file atype force_arg w =
     (tae_outcome env hp m weights_file force_arg (files w) (dataset w) (contexts w),
      tae_model env hp m weights_file force_arg (files w) (dataset w),
      w\<lparr>files := files_after (files w) weights_file force_arg,
        dataset := dataset_after hp (files w) (dataset w) weights_file force_arg,
        trace := trace w @
          tae_events env hp m weights_file atype force_arg (files w) (dataset w) (contexts w)\<rparr>)"
proof -
  obtain ls sd where
    fo: "fit_outcome env m (dataset_used hp (dataset w)) (fit_kw hp weights_file) = (ls, sd)"
    by (cases "fit_outcome env m (dataset_used hp (dataset w)) (fit_kw hp weights_file)")
  note defs = train_and_evaluate_def Let_def get_results_def emit_eq log_row_eq log_rest_eq
          get_dataset_eq fit_kw_def resumes_def dataset_used_def files_after_def dataset_after_def
          tae_outcome_def tae_model_def tae_events_def tae_row_def tae_results_def
          tae_losses_def results_path_def train_events_def log_events_def
  show ?thesis
  proof (cases "weights_file \<in> files w")
    case inF: True
    show ?thesis
    proof (cases force_arg)
      case True
      show ?thesis
      proof (cases "dataset w")
        case None
        with inF True fo show ?thesis by (simp add: defs split: sum.split)
      next
        case (Some ds)
        with inF True fo show ?thesis by (simp add: defs split: sum.split)
      qed
    next
      case False
      with inF show ?thesis by (simp add: defs split: sum.split)
    qed
  next
    case ninF: False
    show ?thesis
    proof (cases "dataset w")
      case None
      with ninF fo show ?thesis by (simp add: defs split: sum.split)
    next
      case (Some ds)
      with ninF fo show ?thesis by (simp add: defs split: sum.split)
    qed
  qed
qed

lemma tabular_rows_row_events:
  "tabular_rows (row_events xs :: 'w event list) =
     map (\<lambda>(i, l). [(''epoch'', PInt (int i)), (''loss'', l)]) xs"
  by (induction xs) (auto simp: row_events_def)

lemma enumerate_butlast:
  "enumerate_from0 (butlast xs) = map (\<lambda>i. (i, xs ! i)) [0..<length xs - 1]"
  by (auto simp: enumerate_from0_def list_eq_iff_nth_eq nth_butlast)

lemma new_events_eq: "trace w' = trace w @ evs \<Longrightarrow> new_events w w' = evs"
  by (simp add: new_events_def)

lemma tabular_rows_train_events [simp]:
  "tabular_rows (train_events hp m wfile atype f fs dso @ Evaluate t p x # evs) = tabular_rows evs"
  by (simp add: train_events_def)

lemma keys_dict_display: "fst ` set (dict_display fixed r) = fst ` set fixed \<union> fst ` set r"
  unfolding dict_display_def
proof (induction r arbitrary: fixed)
  case Nil
  then show ?case by simp
next
  case (Cons a r)
  obtain k v where a: "a = (k, v)" by (cases a)
  show ?case by (simp add: a Cons.IH dom_update)
qed

lemma map_of_dict_display:
  "map_of (dict_display fixed r) k = (case map_of (rev r) k of Some v \<Rightarrow> Some v | None \<Rightarrow> map_of fixed k)"
  unfolding dict_display_def
proof (induction r arbitrary: fixed)
  case Nil
  then show ?case by simp
next
  case (Cons a r)
  obtain k' v' where a: "a = (k', v')" by (cases a)
  show ?case
    by (simp add: a Cons.IH update_conv' map_add_def split: option.split)
qed

lemma map_of_rev_None: "k \<notin> fst ` set r \<Longrightarrow> map_of (rev r) k = None"
  by (simp add: map_of_eq_None_iff)

section \<open>Resuming from a checkpoint\<close>

text \<open>
  Claim C1.  When the weights file exists and \<^verbatim>\<open>force\<close> is false,
  \<^verbatim>\<open>train_and_evaluate\<close> loads the saved state dict instead of calling \<^verbatim>\<open>fit\<close> and
  evaluates the adapted model.  It then does not log and does not return the results:
  \<^verbatim>\<open>losses\<close> is still the empty list, so \<^verbatim>\<open>losses[-1]\<close> on line 74 raises
  \<^verbatim>\<open>IndexError\<close> (or \<^verbatim>\<open>num_epochs-1\<close> raises \<^verbatim>\<open>TypeError\<close> before it, when
  \<^verbatim>\<open>num_epochs\<close> is not a number).  The trace ends with the evaluation.
\<close>

theorem resume_raises:
  assumes "weights_file \<in> files w" and "\<not> force_arg"
  shows "train_and_evaluate env hp m weights_file atype force_arg w =
     ((case minus_one (num_epochs hp) of Inl e \<Rightarrow> Inl e | Inr _ \<Rightarrow> Inl IndexError),
      load_state_dict (torch_load env weights_file) m,
      w\<lparr>trace := trace w @
          [Makedirs (dirname weights_file), LoadState m weights_file,
           Evaluate (task hp) (join (get_snapshot_dir env (contexts w)) [''results.json''])
             (AdaptedModel (load_state_dict (torch_load env weights_file) m))]\<rparr>)"
  using assms
  by (simp add: train_and_evaluate_eq tae_outcome_def tae_row_def tae_losses_def resumes_def
      final_row_def last_item_def tae_model_def files_after_def dataset_after_def tae_events_def
      train_events_def log_events_def results_path_def split: sum.split)

theorem resume_raises_witness:
  "train_and_evaluate example_env example_hparams example_adapter ''/logs/query_adapted/weights_query_adapted.pt''
     ''Query-Adapted'' False (example_world\<lparr>files := {''/logs/query_adapted/weights_query_adapted.pt''}\<rparr>) =
     (Inl IndexError, example_adapter\<lparr>weight := 7, bias := 8\<rparr>,
      example_world\<lparr>files := {''/logs/query_adapted/weights_query_adapted.pt''},
        trace := [Makedirs ''/logs/query_adapted'',
                  LoadState example_adapter ''/logs/query_adapted/weights_query_adapted.pt'',
                  Evaluate (PStr ''CQADupstackEnglishRetrieval'') ''/logs/results.json''
                    (AdaptedModel (example_adapter\<lparr>weight := 7, bias := 8\<rparr>))]\<rparr>)"
  using resume_raises [of "''/logs/query_adapted/weights_query_adapted.pt''"
      "example_world\<lparr>files := {''/logs/query_adapted/weights_query_adapted.pt''}\<rparr>" False
      example_env example_hparams example_adapter "''Query-Adapted''"]
  by (simp add: example_world_def example_hparams_def example_env_def example_adapter_def
      load_state_dict_def dirname_def join_def join2_def)

section \<open>The order of the tabular log\<close>

text \<open>
  Claim C10.  Whenever \<^verbatim>\<open>train_and_evaluate\<close> returns, the rows it has written to the
  tabular log are: first the row of the final epoch, which is the dict display of
  \<^verbatim>\<open>epoch = num_epochs-1\<close>, \<^verbatim>\<open>loss = losses[-1]\<close> and the entries of
  \<^verbatim>\<open>results[task][split]\<close>, so it has every key of the evaluation results (and the epoch
  and the last loss under their keys, unless the results have a key of that name);
  then, for \<open>i\<close> from 0 to \<^verbatim>\<open>len(losses)-2\<close> in increasing order, a row with only
  \<^verbatim>\<open>epoch = i\<close> and \<^verbatim>\<open>loss = losses[i]\<close>.
\<close>

theorem final_epoch_row_first:
  fixes env :: "'w env"
  assumes "train_and_evaluate env hp m weights_file atype force_arg w = (Inr res, m', w')"
  shows "\<exists>losses ep by_split r.
           losses = fst (fit_outcome env m (dataset_used hp (dataset w)) (fit_kw hp weights_file))
         \<and> losses \<noteq> []
         \<and> minus_one (num_epochs hp) = Inr ep
         \<and> item res (task hp) = Inr by_split \<and> item by_split (split hp) = Inr r
         \<and> tabular_rows (new_events w w') =
             dict_display [(''epoch'', ep), (''loss'', last losses)] r #
             map (\<lambda>i. [(''epoch'', PInt (int i)), (''loss'', losses ! i)]) [0..<length losses - 1]
         \<and> fst ` set (dict_display [(''epoch'', ep), (''loss'', last losses)] r)
             = {''epoch'', ''loss''} \<union> fst ` set r
         \<and> (''epoch'' \<notin> fst ` set r \<longrightarrow>
              map_of (dict_display [(''epoch'', ep), (''loss'', last losses)] r) ''epoch'' = Some ep)
         \<and> (''loss'' \<notin> fst ` set r \<longrightarrow>
              map_of (dict_display [(''epoch'', ep), (''loss'', last losses)] r) ''loss''
                = Some (last losses))"
proof -
  let ?fs = "files w" and ?dso = "dataset w" and ?ctx = "contexts w"
  let ?losses = "tae_losses env hp m weights_file force_arg ?fs ?dso"
  from assms have out: "tae_outcome env hp m weights_file force_arg ?fs ?dso ?ctx = Inr res"
    and w': "w' = w\<lparr>files := files_after ?fs weights_file force_arg,
        dataset := dataset_after hp ?fs ?dso weights_file force_arg,
        trace := trace w @ tae_events env hp m weights_file atype force_arg ?fs ?dso ?ctx\<rparr>"
    by (simp_all add: train_and_evaluate_eq)
  from out obtain row where
    row: "tae_row env hp m weights_file force_arg ?fs ?dso ?ctx = Inr row"
    and res: "res = tae_results env hp m weights_file force_arg ?fs ?dso ?ctx"
    by (auto simp: tae_outcome_def split: sum.splits)
  from row res have fr: "final_row hp ?losses res = Inr row"
    by (simp add: tae_row_def)
  then obtain ep l by_split r where
    ep: "minus_one (num_epochs hp) = Inr ep" and l: "last_item ?losses = Inr l"
    and bs: "item res (task hp) = Inr by_split" and r: "item by_split (split hp) = Inr r"
    and rowdef: "row = dict_display [(''epoch'', ep), (''loss'', l)] r"
    by (auto simp: final_row_def split: sum.splits)
  from l have ne: "?losses \<noteq> []" and ll: "l = last ?losses"
    by (auto simp: last_item_def split: if_splits)
  from ne have nores: "\<not> resumes ?fs weights_file force_arg"
    by (auto simp: tae_losses_def)
  then have losses: "?losses = fst (fit_outcome env m (dataset_used hp ?dso) (fit_kw hp weights_file))"
    by (simp add: tae_losses_def)
  have rows: "tabular_rows (new_events w w') =
      row # map (\<lambda>i. [(''epoch'', PInt (int i)), (''loss'', ?losses ! i)]) [0..<length ?losses - 1]"
  proof -
    have "new_events w w' = tae_events env hp m weights_file atype force_arg ?fs ?dso ?ctx"
      by (rule new_events_eq) (simp add: w')
    then show ?thesis
      by (simp add: tae_events_def log_events_def row tabular_rows_row_events enumerate_butlast
          comp_def)
  qed
  have keys: "fst ` set row = {''epoch'', ''loss''} \<union> fst ` set r"
    by (simp add: rowdef keys_dict_display)
  have e1: "''epoch'' \<notin> fst ` set r \<longrightarrow> map_of row ''epoch'' = Some ep"
    by (simp add: rowdef map_of_dict_display map_of_rev_None)
  have e2: "''loss'' \<notin> fst ` set r \<longrightarrow> map_of row ''loss'' = Some l"
    by (simp add: rowdef map_of_dict_display map_of_rev_None)
  from losses ne ep bs r rows keys e1 e2 show ?thesis
    unfolding rowdef ll by (intro exI conjI) simp_all
qed

theorem final_epoch_row_first_witness:
  "tabular_rows (new_events example_world
       (snd (snd (train_and_evaluate example_env example_hparams example_adapter
          ''/logs/weights.pt'' ''Joint'' False example_world)))) =
     [[(''epoch'', PInt 14), (''loss'', PFloat (1 / 8)), (''ndcg_at_10'', PFloat (3 / 5))],
      [(''epoch'', PInt 0), (''loss'', PFloat (1 / 2))],
      [(''epoch'', PInt 1), (''loss'', PFloat (1 / 4))]]"
proof -
  have "fst (train_and_evaluate example_env example_hparams example_adapter
          ''/logs/weights.pt'' ''Joint'' False example_world) =
        Inr [(PStr ''CQADupstackEnglishRetrieval'', [(PStr ''test'', [(''ndcg_at_10'', PFloat (3 / 5))])])]"
    by (simp add: train_and_evaluate_eq tae_outcome_def tae_row_def tae_results_def tae_losses_def
        resumes_def final_row_def last_item_def item_def dict_display_def
        example_world_def example_env_def example_hparams_def)
  then have "train_and_evaluate example_env example_hparams example_adapter
          ''/logs/weights.pt'' ''Joint'' False example_world =
        (Inr [(PStr ''CQADupstackEnglishRetrieval'', [(PStr ''test'', [(''ndcg_at_10'', PFloat (3 / 5))])])],
         fst (snd (train_and_evaluate example_env example_hparams example_adapter
          ''/logs/weights.pt'' ''Joint'' False example_world)),
         snd (snd (train_and_evaluate example_env example_hparams example_adapter
          ''/logs/weights.pt'' ''Joint'' False example_world)))"
    by (metis prod.collapse)
  from final_epoch_row_first [OF this] show ?thesis
    by (auto simp: example_env_def example_hparams_def item_def dict_display_def upt_rec)
qed

section \<open>The grid of the launcher\<close>

lemma length_iterate:
  "length (iterate_hyperparameters g) = prod_list (map (\<lambda>(k, vs). length vs) g)"
proof (induction g)
  case Nil
  then show ?case by simp
next
  case (Cons a g)
  obtain k vs where a: "a = (k, vs)" by (cases a)
  show ?case
    by (simp add: a Cons.IH length_concat comp_def sum_list_triv)
qed

lemma variants_eq:
  "variants = iterate_hyperparameters triplet_grid @ iterate_hyperparameters pairwise_grid"
  by (simp add: variants_def expand_def variants_list_def)

lemma grid_lengths:
  "length (iterate_hyperparameters triplet_grid) = 12"
  "length (iterate_hyperparameters pairwise_grid) = 8"
  by (simp_all add: length_iterate triplet_grid_def pairwise_grid_def)

text \<open>
  Claim C3.  The variants are a function of \<^verbatim>\<open>variants_list\<close> alone: the Cartesian
  product of the triplet grid followed by that of the pairwise grid.  For the grids of
  \<^verbatim>\<open>__main__\<close> these are 4 * 3 = 12 variants whose loss type is \<^verbatim>\<open>triplet\<close>, followed
  by 4 * 2 = 8 variants whose loss type is \<^verbatim>\<open>mse\<close> or \<^verbatim>\<open>bce\<close>: 20 variants, all
  different.
\<close>

theorem grid_expansion:
  "variants = iterate_hyperparameters triplet_grid @ iterate_hyperparameters pairwise_grid
   \<and> length (iterate_hyperparameters triplet_grid) = 4 * 3
   \<and> length (iterate_hyperparameters pairwise_grid) = 4 * 2
   \<and> length variants = 20
   \<and> loss_types (take 12 variants) =
       [Some (PStr ''triplet''), Some (PStr ''triplet''), Some (PStr ''triplet''),
        Some (PStr ''triplet''), Some (PStr ''triplet''), Some (PStr ''triplet''),
        Some (PStr ''triplet''), Some (PStr ''triplet''), Some (PStr ''triplet''),
        Some (PStr ''triplet''), Some (PStr ''triplet''), Some (PStr ''triplet'')]
   \<and> length (drop 12 variants) = 8
   \<and> list_all (\<lambda>t. t = Some (PStr ''mse'') \<or> t = Some (PStr ''bce''))
       (loss_types (drop 12 variants))
   \<and> distinct variants"
proof (intro conjI)
  show "variants = iterate_hyperparameters triplet_grid @ iterate_hyperparameters pairwise_grid"
    by (rule variants_eq)
  show "length (iterate_hyperparameters triplet_grid) = 4 * 3"
    by (simp add: grid_lengths)
  show "length (iterate_hyperparameters pairwise_grid) = 4 * 2"
    by (simp add: grid_lengths)
  show "length variants = 20"
    by (simp add: variants_eq grid_lengths)
  show "loss_types (take 12 variants) =
       [Some (PStr ''triplet''), Some (PStr ''triplet''), Some (PStr ''triplet''),
        Some (PStr ''triplet''), Some (PStr ''triplet''), Some (PStr ''triplet''),
        Some (PStr ''triplet''), Some (PStr ''triplet''), Some (PStr ''triplet''),
        Some (PStr ''triplet''), Some (PStr ''triplet''), Some (PStr ''triplet'')]"
    by (simp add: variants_eq grid_lengths) (simp add: triplet_grid_def loss_types_def)
  show "length (drop 12 variants) = 8"
    by (simp add: variants_eq grid_lengths)
  show "list_all (\<lambda>t. t = Some (PStr ''mse'') \<or> t = Some (PStr ''bce''))
       (loss_types (drop 12 variants))"
    by (simp add: variants_eq grid_lengths) (simp add: pairwise_grid_def loss_types_def)
  show "distinct variants"
    by (simp add: variants_def expand_def variants_list_def triplet_grid_def pairwise_grid_def)
qed

section \<open>Facts about a run\<close>

lemma stage_eq:
  "stage env hp model var v fname a n prep atype w =
     ((tae_outcome env hp (prep (fresh_adapter env model a n)) (weights_path env (contexts w) v fname)
         False (files w) (dataset w) (stage_ctx (contexts w) v),
       tae_model env hp (prep (fresh_adapter env model a n)) (weights_path env (contexts w) v fname)
         False (files w) (dataset w)),
      w\<lparr>files := files_after (files w) (weights_path env (contexts w) v fname) False,
        dataset := dataset_after hp (files w) (dataset w) (weights_path env (contexts w) v fname) False,
        trace := trace w @
          stage_events env hp model var v fname a n prep atype (files w) (dataset w) (contexts w)\<rparr>)"
  by (simp add: stage_def local_logger_def linear_adapter_def Let_def emit_eq train_and_evaluate_eq
      fresh_adapter_def [symmetric] weights_path_def stage_ctx_def stage_events_def)

lemma query_adapted_stage_eq:
  "query_adapted_stage env hp model var =
     stage env hp model var ''query_adapted'' ''weights_query_adapted.pt'' Query_Only 0 (\<lambda>m. m)
       ''Query-Adapted''"
  by (simp add: query_adapted_stage_def stage_def)

lemma adapted_stage_eq:
  "adapted_stage env hp model var =
     stage env hp model var ''adapted'' ''weights.pt'' Plain 1 (\<lambda>m. m) ''Joint''"
  by (simp add: adapted_stage_def stage_def)

lemma query_first_stage_eq:
  "query_first_stage env hp model var q_adapted_model =
     stage env hp model var ''query_first'' ''weights_query_first.pt'' Plain 2
       (copy_first_layer q_adapted_model) ''Query-First''"
  by (simp add: query_first_stage_def stage_def Let_def split_beta)

lemma separate_stage_eq:
  "separate_stage env hp model var =
     stage env hp model var ''separate'' ''weights_separate.pt'' Separate_Embeddings 3 (\<lambda>m. m)
       ''Separate''"
  by (simp add: separate_stage_def stage_def)


lemma qa_world_eq:
  "qa_world env hp model var w0 =
     w0\<lparr>files := files_after (files w0) (qa_path env w0) False,
        dataset := dataset_after hp (files w0) (dataset w0) (qa_path env w0) False,
        trace := trace w0 @ qa_events env hp model var w0\<rparr>"
  by (simp add: qa_world_def query_adapted_stage_eq stage_eq qa_events_def qa_path_def)

lemma joint_world_eq:
  "joint_world env hp model var w0 =
     (qa_world env hp model var w0)
       \<lparr>files := files_after (files (qa_world env hp model var w0)) (joint_path env w0) False,
        dataset := dataset_after hp (files (qa_world env hp model var w0))
                     (dataset (qa_world env hp model var w0)) (joint_path env w0) False,
        trace := trace (qa_world env hp model var w0) @ joint_events env hp model var w0\<rparr>"
  by (simp add: joint_world_def adapted_stage_eq stage_eq joint_events_def joint_path_def)
     (simp add: qa_world_eq)

lemma qf_world_eq:
  "qf_world env hp model var w0 =
     (joint_world env hp model var w0)
       \<lparr>files := files_after (files (joint_world env hp model var w0)) (qf_path env w0) False,
        dataset := dataset_after hp (files (joint_world env hp model var w0))
                     (dataset (joint_world env hp model var w0)) (qf_path env w0) False,
        trace := trace (joint_world env hp model var w0) @ qf_events env hp model var w0\<rparr>"
  by (simp add: qf_world_def query_first_stage_eq stage_eq qf_events_def qf_path_def)
     (simp add: joint_world_eq qa_world_eq)

lemma sep_world_eq:
  "sep_world env hp model var w0 =
     (qf_world env hp model var w0)
       \<lparr>files := files_after (files (qf_world env hp model var w0)) (sep_path env w0) False,
        dataset := dataset_after hp (files (qf_world env hp model var w0))
                     (dataset (qf_world env hp model var w0)) (sep_path env w0) False,
        trace := trace (qf_world env hp model var w0) @ sep_events env hp model var w0\<rparr>"
  by (simp add: sep_world_def separate_stage_eq stage_eq sep_events_def sep_path_def)
     (simp add: qf_world_eq joint_world_eq qa_world_eq)

lemma plot_stage_eq:
  "plot_stage env hp model var x1 x2 x3 x4 w =
     ((case baseline_path env hp of Inl e \<Rightarrow> Inl e | Inr _ \<Rightarrow> Inr ()),
      w\<lparr>trace := trace w @ plot_events env hp model var x1 x2 x3 x4\<rparr>)"
  by (simp add: plot_stage_def plot_events_def emit_eq Let_def split: sum.split)

lemma run_stages_eq:
  "run_stages env hp model var w0 =
     (case qa_outcome env hp model var w0 of
        Inl e \<Rightarrow> (Inl e, qa_world env hp model var w0)
      | Inr x1 \<Rightarrow>
     (case joint_outcome env hp model var w0 of
        Inl e \<Rightarrow> (Inl e, joint_world env hp model var w0)
      | Inr x2 \<Rightarrow>
     (case qf_outcome env hp model var w0 of
        Inl e \<Rightarrow> (Inl e, qf_world env hp model var w0)
      | Inr x3 \<Rightarrow>
     (case sep_outcome env hp model var w0 of
        Inl e \<Rightarrow> (Inl e, sep_world env hp model var w0)
      | Inr x4 \<Rightarrow> plot_stage env hp model var x1 x2 x3 x4 (sep_world env hp model var w0)))))"
  by (simp add: run_stages_def qa_outcome_def qa_world_def qa_model_def joint_outcome_def
      joint_world_def qf_outcome_def qf_world_def sep_outcome_def sep_world_def
      split: prod.split sum.split)

lemma run_stages_trace:
  "trace (snd (run_stages env hp model var w0)) = trace w0 @ stages_events env hp model var w0"
  by (simp add: run_stages_eq stages_events_def plot_stage_eq
      sep_world_eq qf_world_eq joint_world_eq qa_world_eq split: sum.split)

lemma run_experiment_trace:
  "trace (snd (run_experiment env var w)) = trace w @ run_events env var w"
  by (simp add: run_experiment_def run_events_def run_stages_trace Let_def start_world_def
      frozen_model_def emit_eq split: sum.split option.split)

section \<open>Validation of a variant\<close>

lemma subscript_present: "k \<in> fst ` set var \<Longrightarrow> \<exists>v. subscript var k = Inr v \<and> map_of var k = Some v"
  by (cases "map_of var k") (auto simp: subscript_def map_of_eq_None_iff)

lemma read_variant_ok:
  assumes "set required_keys \<subseteq> fst ` set var"
  shows "\<exists>hp. read_variant var = Inr hp \<and> map_of var ''loss_type'' = Some (loss_type hp)
            \<and> triplet_margin hp = get_default var ''triplet_margin'' PNone"
proof -
  from assms have
    "''model_name'' \<in> fst ` set var" "''task'' \<in> fst ` set var" "''split'' \<in> fst ` set var"
    "''num_epochs'' \<in> fst ` set var" "''lr'' \<in> fst ` set var" "''batch_size'' \<in> fst ` set var"
    "''loss_type'' \<in> fst ` set var"
    by (auto simp: required_keys_def)
  then obtain v1 v2 v3 v4 v5 v6 v7 where
    "subscript var ''model_name'' = Inr v1" "subscript var ''task'' = Inr v2"
    "subscript var ''split'' = Inr v3" "subscript var ''num_epochs'' = Inr v4"
    "subscript var ''lr'' = Inr v5" "subscript var ''batch_size'' = Inr v6"
    "subscript var ''loss_type'' = Inr v7" "map_of var ''loss_type'' = Some v7"
    using subscript_present by metis
  then show ?thesis by (simp add: read_variant_def)
qed

lemma final_row_error:
  "final_row hp losses res = Inl e \<Longrightarrow> e = TypeError \<or> e = IndexError \<or> (\<exists>k. e = KeyError k)"
  by (cases "num_epochs hp")
     (auto simp: final_row_def last_item_def item_def split: sum.splits option.splits if_splits)

lemma tae_outcome_error:
  "tae_outcome env hp m weights_file force_arg fs dso ctx = Inl e \<Longrightarrow>
     e = TypeError \<or> e = IndexError \<or> (\<exists>k. e = KeyError k)"
  by (auto simp: tae_outcome_def tae_row_def split: sum.splits dest: final_row_error)

lemma stage_outcome_error:
  "fst (fst (stage env hp model var v fname a n prep atype w)) = Inl e \<Longrightarrow>
     e = TypeError \<or> e = IndexError \<or> (\<exists>k. e = KeyError k)"
  by (simp add: stage_eq) (erule tae_outcome_error)

lemma stage_outcomes_error:
  "qa_outcome env hp model var w0 = Inl e \<Longrightarrow> e = TypeError \<or> e = IndexError \<or> (\<exists>k. e = KeyError k)"
  "joint_outcome env hp model var w0 = Inl e \<Longrightarrow> e = TypeError \<or> e = IndexError \<or> (\<exists>k. e = KeyError k)"
  "qf_outcome env hp model var w0 = Inl e \<Longrightarrow> e = TypeError \<or> e = IndexError \<or> (\<exists>k. e = KeyError k)"
  "sep_outcome env hp model var w0 = Inl e \<Longrightarrow> e = TypeError \<or> e = IndexError \<or> (\<exists>k. e = KeyError k)"
  unfolding qa_outcome_def joint_outcome_def qf_outcome_def sep_outcome_def
    query_adapted_stage_eq adapted_stage_eq query_first_stage_eq separate_stage_eq
  by (erule stage_outcome_error)+

lemma baseline_path_error: "baseline_path env hp = Inl e \<Longrightarrow> e = TypeError"
  by (cases "model_name hp") (auto simp: baseline_path_def)

lemma run_stages_error:
  assumes "fst (run_stages env hp model var w0) = Inl e"
  shows "e = TypeError \<or> e = IndexError \<or> (\<exists>k. e = KeyError k)"
  using assms
  by (auto simp: run_stages_eq plot_stage_eq split: sum.splits
      dest: stage_outcomes_error baseline_path_error)

lemma validate_Some: "validate hp = Some e \<Longrightarrow> \<exists>x. e = ValueError x"
  by (auto simp: validate_def split: if_splits)

lemma validate_None_iff:
  "validate hp = None \<longleftrightarrow>
     loss_type hp \<in> {PStr ''triplet'', PStr ''mse'', PStr ''bce''}
     \<and> \<not> (loss_type hp = PStr ''triplet'' \<and> triplet_margin hp = PNone)"
  by (auto simp: validate_def)

text \<open>
  Claim C8.  For a variant that has the keys \<^verbatim>\<open>run_experiment\<close> reads with a subscript,
  the call raises \<^verbatim>\<open>ValueError\<close> if and only if the loss type is not one of
  \<^verbatim>\<open>triplet\<close>, \<^verbatim>\<open>mse\<close>, \<^verbatim>\<open>bce\<close>, or it is \<^verbatim>\<open>triplet\<close> and
  \<^verbatim>\<open>triplet_margin\<close> is absent or \<^verbatim>\<open>None\<close>; and when it raises \<^verbatim>\<open>ValueError\<close> the
  world is as it was: no model loaded, no dataset built, nothing trained, logged or
  written.
\<close>

theorem validation_error:
  assumes "set required_keys \<subseteq> fst ` set var"
  shows "((\<exists>x. fst (run_experiment env var w) = Inl (ValueError x)) \<longleftrightarrow>
            (map_of var ''loss_type'' \<notin>
               {Some (PStr ''triplet''), Some (PStr ''mse''), Some (PStr ''bce'')}
             \<or> map_of var ''loss_type'' = Some (PStr ''triplet'')
               \<and> map_of var ''triplet_margin'' \<in> {None, Some PNone}))
       \<and> ((\<exists>x. fst (run_experiment env var w) = Inl (ValueError x)) \<longrightarrow>
            snd (run_experiment env var w) = w)"
proof -
  from read_variant_ok [OF assms] obtain hp where
    rv: "read_variant var = Inr hp" and lt: "map_of var ''loss_type'' = Some (loss_type hp)"
    and tm: "triplet_margin hp = get_default var ''triplet_margin'' PNone"
    by blast
  have margin: "triplet_margin hp = PNone \<longleftrightarrow> map_of var ''triplet_margin'' \<in> {None, Some PNone}"
    by (auto simp: tm get_default_def split: option.splits)
  show ?thesis
  proof (cases "validate hp")
    case None
    then have "\<not> (\<exists>x. fst (run_experiment env var w) = Inl (ValueError x))"
      using run_stages_error
      by (fastforce simp: run_experiment_def rv Let_def)
    moreover from None have
      "\<not> (map_of var ''loss_type'' \<notin>
               {Some (PStr ''triplet''), Some (PStr ''mse''), Some (PStr ''bce'')}
             \<or> map_of var ''loss_type'' = Some (PStr ''triplet'')
               \<and> map_of var ''triplet_margin'' \<in> {None, Some PNone})"
      unfolding validate_None_iff margin [symmetric] lt by auto
    ultimately show ?thesis by blast
  next
    case (Some e)
    then obtain x where e: "e = ValueError x" using validate_Some by blast
    from Some have run: "run_experiment env var w = (Inl e, w)"
      by (simp add: run_experiment_def rv)
    from Some have "validate hp \<noteq> None" by simp
    then have
      "map_of var ''loss_type'' \<notin>
               {Some (PStr ''triplet''), Some (PStr ''mse''), Some (PStr ''bce'')}
             \<or> map_of var ''loss_type'' = Some (PStr ''triplet'')
               \<and> map_of var ''triplet_margin'' \<in> {None, Some PNone}"
      unfolding validate_None_iff margin [symmetric] lt by auto
    with run e show ?thesis by simp
  qed
qed

theorem validation_error_witness:
  "(\<exists>x. fst (run_experiment example_env example_invalid_variant example_world) = Inl (ValueError x))
   \<and> snd (run_experiment example_env example_invalid_variant example_world) = example_world"
  using validation_error [of example_invalid_variant example_env example_world]
  by (simp add: required_keys_def example_invalid_variant_def)

section \<open>The frozen base model\<close>

lemma frozen_freeze: "frozen (freeze m)"
  by (simp add: frozen_def freeze_def map_replicate_const)

lemma base_load_state_dict [simp]: "base (load_state_dict sd m) = base m"
  by (cases sd) (simp add: load_state_dict_def)

lemma base_tae_model [simp]: "base (tae_model env hp m weights_file force_arg fs dso) = base m"
  by (simp add: tae_model_def)

lemma base_fresh_adapter [simp]: "base (fresh_adapter env model a n) = model"
  by (cases "initial_state env n") (simp add: fresh_adapter_def)

lemma base_copy_first_layer [simp]: "base (copy_first_layer src tgt) = base tgt"
  by (simp add: copy_first_layer_def)

lemma event_base_row_events: "e \<in> set (row_events xs) \<Longrightarrow> event_base e = None"
  by (auto simp: row_events_def)

lemma tae_events_base:
  "e \<in> set (tae_events env hp m weights_file atype force_arg fs dso ctx) \<Longrightarrow>
     event_base e = Some b \<Longrightarrow> b = base m"
  by (auto simp: tae_events_def train_events_def log_events_def
      split: if_splits sum.splits dest: event_base_row_events)

lemma stage_events_base:
  "e \<in> set (stage_events env hp model var v fname a n prep atype fs dso ctx0) \<Longrightarrow>
     event_base e = Some b \<Longrightarrow> base (prep (fresh_adapter env model a n)) = model \<Longrightarrow> b = model"
  by (auto simp: stage_events_def dest: tae_events_base)

lemma plot_events_base:
  "e \<in> set (plot_events env hp model var x1 x2 x3 x4) \<Longrightarrow> event_base e = Some b \<Longrightarrow> b = model"
  by (auto simp: plot_events_def split: sum.splits)

lemma in_stages_events:
  "e \<in> set (stages_events env hp model var w0) \<Longrightarrow>
     e \<in> set (qa_events env hp model var w0) \<or> e \<in> set (joint_events env hp model var w0)
     \<or> e \<in> set (qf_events env hp model var w0) \<or> e \<in> set (sep_events env hp model var w0)
     \<or> (\<exists>x1 x2 x3 x4. e \<in> set (plot_events env hp model var x1 x2 x3 x4))"
  by (auto simp: stages_events_def split: sum.splits)

lemma stages_events_base:
  assumes "e \<in> set (stages_events env hp model var w0)" and "event_base e = Some b"
  shows "b = model"
  using in_stages_events [OF assms(1)] assms(2)
  by (auto simp: qa_events_def joint_events_def qf_events_def sep_events_def
      dest: stage_events_base plot_events_base)

lemma new_events_run: "new_events w (snd (run_experiment env var w)) = run_events env var w"
  by (rule new_events_eq) (rule run_experiment_trace)

text \<open>
  Claim C5.  In every run, for every variant, each adapter that is constructed, loaded,
  trained or evaluated, and the baseline evaluation, works on a base model all of whose
  parameters have \<^verbatim>\<open>requires_grad = False\<close>: lines 40 and 41 run before the first
  adapter is built, and nothing in the launcher sets a flag again.
\<close>

theorem base_model_frozen:
  "\<forall>e \<in> set (new_events w (snd (run_experiment env var w))).
     \<forall>b. event_base e = Some b \<longrightarrow> frozen b"
proof (intro ballI allI impI)
  fix e b
  assume e: "e \<in> set (new_events w (snd (run_experiment env var w)))" and b: "event_base e = Some b"
  from e have "e \<in> set (run_events env var w)" by (simp add: new_events_run)
  with b obtain hp where "e \<in> set (stages_events env hp (frozen_model env hp) var (start_world hp w))"
    by (auto simp: run_events_def split: sum.splits option.splits)
  from stages_events_base [OF this b] show "frozen b"
    by (simp add: frozen_model_def frozen_freeze)
qed

lemma example_read_variant: "read_variant example_variant = Inr example_hparams"
  by (simp add: read_variant_def subscript_def get_default_def example_variant_def
      example_hparams_def)

lemma example_validate: "validate example_hparams = None"
  by (simp add: validate_def example_hparams_def)

lemma example_run_events:
  "run_events example_env example_variant example_world =
     LoadModel (model_name example_hparams) #
     stages_events example_env example_hparams (frozen_model example_env example_hparams)
       example_variant (start_world example_hparams example_world)"
  by (simp add: run_events_def example_read_variant example_validate)

theorem base_model_frozen_witness:
  "requires_grad (frozen_model example_env example_hparams) = [False, False]
   \<and> frozen (frozen_model example_env example_hparams)"
proof -
  let ?a = "fresh_adapter example_env (frozen_model example_env example_hparams) Query_Only 0"
  have "NewAdapter ?a \<in> set (new_events example_world
          (snd (run_experiment example_env example_variant example_world)))"
    by (simp add: new_events_run example_run_events stages_events_def qa_events_def
        stage_events_def)
  with base_model_frozen [of example_world example_env example_variant]
  have "frozen (base ?a)" by fastforce
  then show ?thesis
    by (simp add: frozen_model_def freeze_def sentence_transformer_def example_env_def)
qed

section \<open>The memoised dataset\<close>

lemma datasets_built_simps [simp]:
  "datasets_built [] = []"
  "datasets_built (e # evs) = built e @ datasets_built evs"
  "datasets_built (xs @ ys) = datasets_built xs @ datasets_built ys"
  by (simp_all add: datasets_built_def)

lemma datasets_fitted_simps [simp]:
  "datasets_fitted [] = []"
  "datasets_fitted (e # evs) = fitted e @ datasets_fitted evs"
  "datasets_fitted (xs @ ys) = datasets_fitted xs @ datasets_fitted ys"
  by (simp_all add: datasets_fitted_def)

lemma row_events_no_dataset [simp]:
  "datasets_built (row_events xs) = []" "datasets_fitted (row_events xs) = []"
  by (induction xs) (auto simp: row_events_def)

lemma log_events_no_dataset [simp]:
  "datasets_built (log_events env hp m weights_file force_arg fs dso ctx) = []"
  "datasets_fitted (log_events env hp m weights_file force_arg fs dso ctx) = []"
  by (simp_all add: log_events_def split: sum.split)

lemma stage_events_built:
  "datasets_built (stage_events env hp model var v fname a n prep atype fs dso ctx0) =
     (if dso = None \<and> \<not> resumes fs (weights_path env ctx0 v fname) False
      then [new_dataset hp] else [])"
  by (simp add: stage_events_def tae_events_def train_events_def)

lemma stage_events_fitted:
  "datasets_fitted (stage_events env hp model var v fname a n prep atype fs dso ctx0) =
     (if resumes fs (weights_path env ctx0 v fname) False then [] else [dataset_used hp dso])"
  by (simp add: stage_events_def tae_events_def train_events_def)

lemma plot_events_no_dataset [simp]:
  "datasets_built (plot_events env hp model var x1 x2 x3 x4) = []"
  "datasets_fitted (plot_events env hp model var x1 x2 x3 x4) = []"
  by (simp_all add: plot_events_def split: sum.split)

lemma memo_ok_used: "memo_ok hp dso \<Longrightarrow> dataset_used hp dso = new_dataset hp"
  by (auto simp: memo_ok_def dataset_used_def)

lemma memo_ok_after: "memo_ok hp dso \<Longrightarrow> memo_ok hp (dataset_after hp fs dso p f)"
  by (auto simp: memo_ok_def dataset_after_def dataset_used_def)

lemma dataset_after_None:
  "dataset_after hp fs dso p f = None \<longleftrightarrow> dso = None \<and> resumes fs p f"
  by (simp add: dataset_after_def)

lemma files_after_mono: "x \<in> fs \<Longrightarrow> x \<in> files_after fs p f"
  by (simp add: files_after_def)

lemma get_dataset_idem:
  "get_dataset hp (snd (get_dataset hp w)) = (fst (get_dataset hp w), snd (get_dataset hp w))"
  by (simp add: get_dataset_def Let_def emit_eq split: option.split)

lemma new_dataset_triplet:
  "(\<exists>t s n g d. new_dataset hp = TripletDataset t s n g d) \<longleftrightarrow> loss_type hp = PStr ''triplet''"
  by (simp add: new_dataset_def)

lemma new_dataset_pairwise:
  "(\<exists>t s n g d. new_dataset hp = PairwiseScoreDataset t s n g d) \<longleftrightarrow> loss_type hp \<noteq> PStr ''triplet''"
  by (simp add: new_dataset_def)

lemma chain_datasets:
  "dataset (qa_world env hp model var w0) =
     dataset_after hp (files w0) (dataset w0) (qa_path env w0) False"
  "dataset (joint_world env hp model var w0) =
     dataset_after hp (files (qa_world env hp model var w0)) (dataset (qa_world env hp model var w0))
       (joint_path env w0) False"
  "dataset (qf_world env hp model var w0) =
     dataset_after hp (files (joint_world env hp model var w0))
       (dataset (joint_world env hp model var w0)) (qf_path env w0) False"
  by (simp_all add: qa_world_eq joint_world_eq qf_world_eq)

lemma chain_files:
  "x \<in> files w0 \<Longrightarrow> x \<in> files (qa_world env hp model var w0)"
  "x \<in> files w0 \<Longrightarrow> x \<in> files (joint_world env hp model var w0)"
  "x \<in> files w0 \<Longrightarrow> x \<in> files (qf_world env hp model var w0)"
  by (simp_all add: qa_world_eq joint_world_eq qf_world_eq files_after_mono)

lemma chain_memo:
  assumes "memo_ok hp (dataset w0)"
  shows "memo_ok hp (dataset (qa_world env hp model var w0))"
    and "memo_ok hp (dataset (joint_world env hp model var w0))"
    and "memo_ok hp (dataset (qf_world env hp model var w0))"
  using assms by (simp_all add: chain_datasets memo_ok_after)

lemma stages_built:
  "datasets_built (stages_events env hp model var w0) = []
   \<or> datasets_built (stages_events env hp model var w0) = [new_dataset hp]"
  by (simp add: stages_events_def qa_events_def joint_events_def qf_events_def sep_events_def
      stage_events_built chain_datasets dataset_after_None
      qa_path_def [symmetric] joint_path_def [symmetric] qf_path_def [symmetric]
      split: sum.split)

lemma datasets_fitted_Nil: "datasets_fitted evs = [] \<longleftrightarrow> (\<forall>e\<in>set evs. fitted e = [])"
  by (induction evs) auto

lemma datasets_built_Nil: "datasets_built evs = [] \<longleftrightarrow> (\<forall>e\<in>set evs. built e = [])"
  by (induction evs) auto

lemma set_datasets_fitted: "set (datasets_fitted evs) = (\<Union>e\<in>set evs. set (fitted e))"
  by (induction evs) auto

lemma in_stages_events_strong:
  "e \<in> set (stages_events env hp model var w0) \<Longrightarrow>
     (\<exists>E. e \<in> set E \<and> set E \<subseteq> set (stages_events env hp model var w0)
        \<and> (E = qa_events env hp model var w0 \<or> E = joint_events env hp model var w0
           \<or> E = qf_events env hp model var w0 \<or> E = sep_events env hp model var w0
           \<or> (\<exists>x1 x2 x3 x4. E = plot_events env hp model var x1 x2 x3 x4)))"
  unfolding stages_events_def
  by (cases "qa_outcome env hp model var w0"; cases "joint_outcome env hp model var w0";
      cases "qf_outcome env hp model var w0"; cases "sep_outcome env hp model var w0")
     (simp_all, blast+)

lemma plot_event_fitted: "e \<in> set (plot_events env hp model var x1 x2 x3 x4) \<Longrightarrow> fitted e = []"
  by (auto simp: plot_events_def split: sum.splits)

lemma stage_fitted_memo:
  "memo_ok hp dso \<Longrightarrow>
     set (datasets_fitted (stage_events env hp model var v fname a n prep atype fs dso ctx0))
       \<subseteq> {new_dataset hp}"
  by (simp add: stage_events_fitted memo_ok_used)

lemma stages_fitted:
  assumes "memo_ok hp (dataset w0)"
  shows "set (datasets_fitted (stages_events env hp model var w0)) \<subseteq> {new_dataset hp}"
proof -
  note memo = assms chain_memo [OF assms, of env model var]
  have "set (fitted e) \<subseteq> {new_dataset hp}"
    if "e \<in> set (stages_events env hp model var w0)" for e
  proof -
    from in_stages_events [OF that] consider
      "e \<in> set (qa_events env hp model var w0)" | "e \<in> set (joint_events env hp model var w0)"
      | "e \<in> set (qf_events env hp model var w0)" | "e \<in> set (sep_events env hp model var w0)"
      | x1 x2 x3 x4 where "e \<in> set (plot_events env hp model var x1 x2 x3 x4)"
      by blast
    then show ?thesis
    proof cases
      case 1
      with stage_fitted_memo [OF memo(1)] show ?thesis
        unfolding qa_events_def set_datasets_fitted by blast
    next
      case 2
      with stage_fitted_memo [OF memo(2)] show ?thesis
        unfolding joint_events_def set_datasets_fitted by blast
    next
      case 3
      with stage_fitted_memo [OF memo(3)] show ?thesis
        unfolding qf_events_def set_datasets_fitted by blast
    next
      case 4
      with stage_fitted_memo [OF memo(4)] show ?thesis
        unfolding sep_events_def set_datasets_fitted by blast
    next
      case 5
      then show ?thesis
        by (simp add: plot_event_fitted)
    qed
  qed
  then show ?thesis by (auto simp: set_datasets_fitted)
qed

lemma stage_built_fitted:
  "datasets_fitted (stage_events env hp model var v fname a n prep atype fs dso ctx0) = [] \<Longrightarrow>
     datasets_built (stage_events env hp model var v fname a n prep atype fs dso ctx0) = []"
  by (simp add: stage_events_built stage_events_fitted split: if_splits)

lemma stages_built_fitted:
  assumes "datasets_fitted (stages_events env hp model var w0) = []"
  shows "datasets_built (stages_events env hp model var w0) = []"
  unfolding datasets_built_Nil
proof
  fix e
  assume "e \<in> set (stages_events env hp model var w0)"
  from in_stages_events_strong [OF this] obtain E where
    e: "e \<in> set E" and sub: "set E \<subseteq> set (stages_events env hp model var w0)"
    and E: "E = qa_events env hp model var w0 \<or> E = joint_events env hp model var w0
           \<or> E = qf_events env hp model var w0 \<or> E = sep_events env hp model var w0
           \<or> (\<exists>x1 x2 x3 x4. E = plot_events env hp model var x1 x2 x3 x4)"
    by blast
  from assms sub have "datasets_fitted E = []"
    unfolding datasets_fitted_Nil by blast
  with E have "datasets_built E = []"
    unfolding qa_events_def joint_events_def qf_events_def sep_events_def
    by (auto dest: stage_built_fitted)
  with e show "built e = []"
    unfolding datasets_built_Nil by blast
qed

lemma stage_resume_fitted:
  "weights_path env ctx0 v fname \<in> fs \<Longrightarrow>
     datasets_fitted (stage_events env hp model var v fname a n prep atype fs dso ctx0) = []"
  by (simp add: stage_events_fitted resumes_def)

lemma stages_all_resume:
  assumes "qa_path env w0 \<in> files w0" "joint_path env w0 \<in> files w0"
    "qf_path env w0 \<in> files w0" "sep_path env w0 \<in> files w0"
  shows "datasets_fitted (stages_events env hp model var w0) = []"
  unfolding datasets_fitted_Nil
proof
  fix e
  assume "e \<in> set (stages_events env hp model var w0)"
  from in_stages_events [OF this] consider
    "e \<in> set (qa_events env hp model var w0)" | "e \<in> set (joint_events env hp model var w0)"
    | "e \<in> set (qf_events env hp model var w0)" | "e \<in> set (sep_events env hp model var w0)"
    | x1 x2 x3 x4 where "e \<in> set (plot_events env hp model var x1 x2 x3 x4)"
    by blast
  then show "fitted e = []"
  proof cases
    case 1
    moreover have "datasets_fitted (qa_events env hp model var w0) = []"
      unfolding qa_events_def using assms(1)
      by (intro stage_resume_fitted) (simp add: qa_path_def)
    ultimately show ?thesis unfolding datasets_fitted_Nil by blast
  next
    case 2
    moreover have "datasets_fitted (joint_events env hp model var w0) = []"
      unfolding joint_events_def using chain_files(1) [OF assms(2), of env hp model var]
      by (intro stage_resume_fitted) (simp add: joint_path_def)
    ultimately show ?thesis unfolding datasets_fitted_Nil by blast
  next
    case 3
    moreover have "datasets_fitted (qf_events env hp model var w0) = []"
      unfolding qf_events_def using chain_files(2) [OF assms(3), of env hp model var]
      by (intro stage_resume_fitted) (simp add: qf_path_def)
    ultimately show ?thesis unfolding datasets_fitted_Nil by blast
  next
    case 4
    moreover have "datasets_fitted (sep_events env hp model var w0) = []"
      unfolding sep_events_def using chain_files(3) [OF assms(4), of env hp model var]
      by (intro stage_resume_fitted) (simp add: sep_path_def)
    ultimately show ?thesis unfolding datasets_fitted_Nil by blast
  next
    case 5
    then show ?thesis
      by (simp add: plot_event_fitted)
  qed
qed

lemma start_world_simps [simp]:
  "files (start_world hp w) = files w"
  "contexts (start_world hp w) = contexts w"
  "dataset (start_world hp w) = None"
  "qa_path env (start_world hp w) = qa_path env w"
  "joint_path env (start_world hp w) = joint_path env w"
  "qf_path env (start_world hp w) = qf_path env w"
  "sep_path env (start_world hp w) = sep_path env w"
  by (simp_all add: start_world_def emit_eq qa_path_def joint_path_def qf_path_def sep_path_def)

lemma run_events_Inr:
  "read_variant var = Inr hp \<Longrightarrow>
     run_events env var w =
       (case validate hp of
          Some e \<Rightarrow> []
        | None \<Rightarrow> LoadModel (model_name hp) #
                   stages_events env hp (frozen_model env hp) var (start_world hp w))"
  by (simp add: run_events_def)

text \<open>
  Claim C9.  \<^verbatim>\<open>get_dataset\<close> is idempotent: a second call returns the same dataset and
  changes nothing.  In a run of a variant that has its required keys, at most one dataset
  is constructed, however many of the four trainings ask for it; it is the dataset of
  the variant, a \<^verbatim>\<open>TripletDataset\<close> exactly when the loss type is \<^verbatim>\<open>triplet\<close> and a
  \<^verbatim>\<open>PairwiseScoreDataset\<close> otherwise; every \<^verbatim>\<open>fit\<close> of the run receives that same
  dataset; a run without a \<^verbatim>\<open>fit\<close> constructs none, and so does a run in which the
  four weights files already exist.
\<close>

theorem dataset_memoized:
  assumes "read_variant var = Inr hp"
  shows "get_dataset hp (snd (get_dataset hp w')) = (fst (get_dataset hp w'), snd (get_dataset hp w'))
       \<and> length (datasets_built (new_events w (snd (run_experiment env var w)))) \<le> 1
       \<and> set (datasets_built (new_events w (snd (run_experiment env var w)))) \<subseteq> {new_dataset hp}
       \<and> set (datasets_fitted (new_events w (snd (run_experiment env var w)))) \<subseteq> {new_dataset hp}
       \<and> ((\<exists>t s n g d. new_dataset hp = TripletDataset t s n g d) \<longleftrightarrow>
            loss_type hp = PStr ''triplet'')
       \<and> ((\<exists>t s n g d. new_dataset hp = PairwiseScoreDataset t s n g d) \<longleftrightarrow>
            loss_type hp \<noteq> PStr ''triplet'')
       \<and> (datasets_fitted (new_events w (snd (run_experiment env var w))) = [] \<longrightarrow>
            datasets_built (new_events w (snd (run_experiment env var w))) = [])
       \<and> ({qa_path env w, joint_path env w, qf_path env w, sep_path env w} \<subseteq> files w \<longrightarrow>
            datasets_built (new_events w (snd (run_experiment env var w))) = [])"
proof -
  let ?evs = "new_events w (snd (run_experiment env var w))"
  let ?st = "stages_events env hp (frozen_model env hp) var (start_world hp w)"
  have evs: "?evs = (case validate hp of Some e \<Rightarrow> [] | None \<Rightarrow> LoadModel (model_name hp) # ?st)"
    by (simp add: new_events_run run_events_Inr [OF assms])
  have memo: "memo_ok hp (dataset (start_world hp w))"
    by (simp add: memo_ok_def)
  have b: "datasets_built ?evs = [] \<or> datasets_built ?evs = [new_dataset hp]"
    using stages_built [of env hp "frozen_model env hp" var "start_world hp w"]
    by (auto simp: evs split: option.split)
  have f: "set (datasets_fitted ?evs) \<subseteq> {new_dataset hp}"
    using stages_fitted [OF memo, of env "frozen_model env hp" var]
    by (auto simp: evs split: option.splits)
  have bf: "datasets_fitted ?evs = [] \<longrightarrow> datasets_built ?evs = []"
    using stages_built_fitted [of env hp "frozen_model env hp" var "start_world hp w"]
    by (auto simp: evs split: option.split)
  have r: "{qa_path env w, joint_path env w, qf_path env w, sep_path env w} \<subseteq> files w \<longrightarrow>
            datasets_built ?evs = []"
  proof
    assume "{qa_path env w, joint_path env w, qf_path env w, sep_path env w} \<subseteq> files w"
    then have "datasets_fitted ?st = []"
      by (intro stages_all_resume) simp_all
    then have "datasets_fitted ?evs = []"
      by (simp add: evs split: option.split)
    with bf show "datasets_built ?evs = []" by simp
  qed
  from b have l: "length (datasets_built ?evs) \<le> 1" and s: "set (datasets_built ?evs) \<subseteq> {new_dataset hp}"
    by auto
  from l s f bf r show ?thesis
    by (simp only: get_dataset_idem new_dataset_triplet new_dataset_pairwise simp_thms)
qed

theorem dataset_memoized_witness:
  "length (datasets_built (new_events example_world
      (snd (run_experiment example_env example_variant example_world)))) \<le> 1
   \<and> set (datasets_fitted (new_events example_world
      (snd (run_experiment example_env example_variant example_world))))
     \<subseteq> {TripletDataset (PStr ''CQADupstackEnglishRetrieval'') (PStr ''test'') (PBool True)
          (PBool False) (PInt 5)}"
  using dataset_memoized [OF example_read_variant, of example_world example_world example_env]
  by (simp add: new_dataset_def example_hparams_def)

section \<open>The weights files\<close>

lemma basename_plain:
  assumes "CHR ''/'' \<notin> set b"
  shows "basename b = b"
proof -
  have tw: "takeWhile (\<lambda>c. c \<noteq> CHR ''/'') (rev b) = rev b"
    by (rule takeWhile_eq_all_conv [THEN iffD2]) (use assms in auto)
  show ?thesis by (simp only: basename_def tw rev_rev_ident)
qed

lemma basename_slash:
  assumes "CHR ''/'' \<notin> set b"
  shows "basename (xs @ CHR ''/'' # b) = b"
proof -
  have tw: "takeWhile (\<lambda>c. c \<noteq> CHR ''/'') (rev b @ CHR ''/'' # rev xs) = rev b"
    by (subst takeWhile_append2) (use assms in auto)
  have "rev (xs @ CHR ''/'' # b) = rev b @ CHR ''/'' # rev xs" by simp
  then show ?thesis by (simp only: basename_def tw rev_rev_ident)
qed

lemma basename_join2:
  assumes "CHR ''/'' \<notin> set b" and "b \<noteq> []"
  shows "basename (join2 a b) = b"
proof -
  from assms have hd: "hd b \<noteq> CHR ''/''" by (cases b) auto
  show ?thesis
  proof (cases "a = []")
    case True
    with hd assms show ?thesis by (simp add: join2_def basename_plain)
  next
    case False
    show ?thesis
    proof (cases "last a = CHR ''/''")
      case True
      with False have a: "a = butlast a @ [CHR ''/'']" by (metis append_butlast_last_id)
      have "basename (a @ b) = b"
        by (subst a) (simp add: basename_slash assms)
      with hd True False show ?thesis by (simp add: join2_def)
    next
      case l: False
      with hd assms False show ?thesis by (simp add: join2_def basename_slash)
    qed
  qed
qed

lemma basename_weights_path:
  "CHR ''/'' \<notin> set fname \<Longrightarrow> fname \<noteq> [] \<Longrightarrow> basename (weights_path env ctx0 v fname) = fname"
  by (simp add: weights_path_def join_def basename_join2)

lemma basename_paths [simp]:
  "basename (qa_path env w) = ''weights_query_adapted.pt''"
  "basename (joint_path env w) = ''weights.pt''"
  "basename (qf_path env w) = ''weights_query_first.pt''"
  "basename (sep_path env w) = ''weights_separate.pt''"
  by (simp_all add: qa_path_def joint_path_def qf_path_def sep_path_def basename_weights_path)

lemma paths_distinct:
  "distinct [qa_path env w, joint_path env w, qf_path env w, sep_path env w]"
proof -
  have "distinct (map basename [qa_path env w, joint_path env w, qf_path env w, sep_path env w])"
    by simp
  then show ?thesis using distinct_map by blast
qed

section \<open>A run without checkpoints\<close>

lemma tae_outcome_fit:
  assumes "libraries_answer env hp" and "\<not> resumes fs p f"
  shows "tae_outcome env hp m p f fs dso ctx = Inr (tae_results env hp m p f fs dso ctx)"
proof -
  let ?res = "tae_results env hp m p f fs dso ctx"
  from assms(1) obtain ep where ep: "minus_one (num_epochs hp) = Inr ep"
    by (auto simp: libraries_answer_def)
  from assms have ne: "tae_losses env hp m p f fs dso \<noteq> []"
    by (simp add: tae_losses_def libraries_answer_def)
  from assms(1) obtain by_split r where
    "item ?res (task hp) = Inr by_split" "item by_split (split hp) = Inr r"
    unfolding libraries_answer_def tae_results_def by blast
  with ep ne show ?thesis
    by (simp add: tae_outcome_def tae_row_def final_row_def last_item_def)
qed

lemma contexts_chain [simp]:
  "contexts (qa_world env hp model var w0) = contexts w0"
  "contexts (joint_world env hp model var w0) = contexts w0"
  "contexts (qf_world env hp model var w0) = contexts w0"
  "contexts (sep_world env hp model var w0) = contexts w0"
  by (simp_all add: qa_world_eq joint_world_eq qf_world_eq sep_world_eq)

lemma files_chain:
  "files (qa_world env hp model var w0) = files_after (files w0) (qa_path env w0) False"
  "files (joint_world env hp model var w0) =
     files_after (files (qa_world env hp model var w0)) (joint_path env w0) False"
  "files (qf_world env hp model var w0) =
     files_after (files (joint_world env hp model var w0)) (qf_path env w0) False"
  "files (sep_world env hp model var w0) =
     files_after (files (qf_world env hp model var w0)) (sep_path env w0) False"
  by (simp_all add: qa_world_eq joint_world_eq qf_world_eq sep_world_eq)

lemma outcomes_eq:
  "qa_outcome env hp model var w0 =
     tae_outcome env hp (fresh_adapter env model Query_Only 0) (qa_path env w0) False
       (files w0) (dataset w0) (stage_ctx (contexts w0) ''query_adapted'')"
  "joint_outcome env hp model var w0 =
     tae_outcome env hp (fresh_adapter env model Plain 1) (joint_path env w0) False
       (files (qa_world env hp model var w0)) (dataset (qa_world env hp model var w0))
       (stage_ctx (contexts w0) ''adapted'')"
  "qf_outcome env hp model var w0 =
     tae_outcome env hp
       (copy_first_layer (qa_model env hp model var w0) (fresh_adapter env model Plain 2))
       (qf_path env w0) False
       (files (joint_world env hp model var w0)) (dataset (joint_world env hp model var w0))
       (stage_ctx (contexts w0) ''query_first'')"
  "sep_outcome env hp model var w0 =
     tae_outcome env hp (fresh_adapter env model Separate_Embeddings 3) (sep_path env w0) False
       (files (qf_world env hp model var w0)) (dataset (qf_world env hp model var w0))
       (stage_ctx (contexts w0) ''separate'')"
  by (simp_all add: qa_outcome_def joint_outcome_def qf_outcome_def sep_outcome_def
      query_adapted_stage_eq adapted_stage_eq query_first_stage_eq separate_stage_eq stage_eq
      qa_path_def joint_path_def qf_path_def sep_path_def)

lemma nothing_resumes:
  assumes "qa_path env w0 \<notin> files w0" "joint_path env w0 \<notin> files w0"
    "qf_path env w0 \<notin> files w0" "sep_path env w0 \<notin> files w0"
  shows "\<not> resumes (files w0) (qa_path env w0) False"
    and "\<not> resumes (files (qa_world env hp model var w0)) (joint_path env w0) False"
    and "\<not> resumes (files (joint_world env hp model var w0)) (qf_path env w0) False"
    and "\<not> resumes (files (qf_world env hp model var w0)) (sep_path env w0) False"
  using assms paths_distinct [of env w0]
  by (auto simp: files_chain files_after_def resumes_def)

lemma all_stages_return:
  assumes "libraries_answer env hp"
    and "qa_path env w0 \<notin> files w0" "joint_path env w0 \<notin> files w0"
    "qf_path env w0 \<notin> files w0" "sep_path env w0 \<notin> files w0"
  shows "\<exists>r1 r2 r3 r4.
           qa_outcome env hp model var w0 = Inr r1 \<and> joint_outcome env hp model var w0 = Inr r2
         \<and> qf_outcome env hp model var w0 = Inr r3 \<and> sep_outcome env hp model var w0 = Inr r4"
  unfolding outcomes_eq
  using nothing_resumes [OF assms(2-5)]
  by (simp add: tae_outcome_fit [OF assms(1)])

lemma args_load_state_dict [simp]: "args (load_state_dict sd m) = args m"
  by (cases sd) (simp add: load_state_dict_def)

lemma args_tae_model [simp]: "args (tae_model env hp m weights_file force_arg fs dso) = args m"
  by (simp add: tae_model_def)

lemma args_fresh_adapter [simp]: "args (fresh_adapter env model a n) = a"
  by (cases "initial_state env n") (simp add: fresh_adapter_def)

lemma args_copy_first_layer [simp]: "args (copy_first_layer src tgt) = args tgt"
  by (simp add: copy_first_layer_def)

lemma steps_simps [simp]:
  "steps [] = []"
  "steps (e # evs) = step_of e @ steps evs"
  "steps (xs @ ys) = steps xs @ steps ys"
  by (simp_all add: steps_def)

lemma steps_row_events [simp]: "steps (row_events xs) = []"
  by (induction xs) (auto simp: row_events_def)

lemma steps_log_events [simp]: "steps (log_events env hp m weights_file force_arg fs dso ctx) = []"
  by (simp add: log_events_def split: sum.split)

lemma steps_plot_events [simp]: "steps (plot_events env hp model var x1 x2 x3 x4) = []"
  by (simp add: plot_events_def split: sum.split)

lemma steps_stage_events:
  "steps (stage_events env hp model var v fname a n prep atype fs dso ctx0) =
     (if resumes fs (weights_path env ctx0 v fname) False
      then [Loaded (args (prep (fresh_adapter env model a n)))
              (basename (weights_path env ctx0 v fname))]
      else [Trained (args (prep (fresh_adapter env model a n)))
              (basename (weights_path env ctx0 v fname))]) @
     [Evaluated (args (prep (fresh_adapter env model a n)))]"
  by (simp add: stage_events_def tae_events_def train_events_def fit_kw_def)

lemma example_libraries_answer: "libraries_answer example_env example_hparams"
  by (simp add: libraries_answer_def example_env_def example_hparams_def item_def)

lemma example_invalid_run:
  "run_experiment example_env example_invalid_variant example_world =
     (Inl (ValueError (InvalidLossType (PStr ''cosine''))), example_world)"
  by (simp add: run_experiment_def read_variant_def subscript_def get_default_def validate_def
      example_invalid_variant_def)

section \<open>The four adapters\<close>

text \<open>
  Claim C2, as stated, for every variant: the variant with the loss type \<^verbatim>\<open>cosine\<close> is
  refused on line 37, and its run trains and evaluates no adapter at all.
\<close>

theorem four_adapters_counterexample:
  "fst (run_experiment example_env example_invalid_variant example_world) =
     Inl (ValueError (InvalidLossType (PStr ''cosine'')))
   \<and> steps (new_events example_world
        (snd (run_experiment example_env example_invalid_variant example_world))) = []"
  by (simp add: example_invalid_run new_events_def)

text \<open>
  Claim C2, amended.  For every variant that has its required keys and passes the checks
  of lines 34 to 37, when none of the four weights files exists yet and the libraries
  answer as a training needs, the run trains and evaluates exactly four adapters, each
  trained and then evaluated, in this order: the query-only adapter, the joint adapter,
  the query-first adapter, the separate-embeddings adapter; nothing is loaded, none is
  trained twice and none is skipped.
\<close>

theorem four_adapters_in_order:
  assumes "read_variant var = Inr hp" and "validate hp = None"
    and "libraries_answer env hp"
    and "qa_path env w \<notin> files w" and "joint_path env w \<notin> files w"
    and "qf_path env w \<notin> files w" and "sep_path env w \<notin> files w"
  shows "steps (new_events w (snd (run_experiment env var w))) =
     [Trained Query_Only ''weights_query_adapted.pt'', Evaluated Query_Only,
      Trained Plain ''weights.pt'', Evaluated Plain,
      Trained Plain ''weights_query_first.pt'', Evaluated Plain,
      Trained Separate_Embeddings ''weights_separate.pt'', Evaluated Separate_Embeddings]"
proof -
  let ?model = "frozen_model env hp" and ?w0 = "start_world hp w"
  have fresh: "qa_path env ?w0 \<notin> files ?w0" "joint_path env ?w0 \<notin> files ?w0"
    "qf_path env ?w0 \<notin> files ?w0" "sep_path env ?w0 \<notin> files ?w0"
    using assms(4-7) by simp_all
  from all_stages_return [OF assms(3) fresh] obtain r1 r2 r3 r4 where
    out: "qa_outcome env hp ?model var ?w0 = Inr r1" "joint_outcome env hp ?model var ?w0 = Inr r2"
      "qf_outcome env hp ?model var ?w0 = Inr r3" "sep_outcome env hp ?model var ?w0 = Inr r4"
    by blast
  note nr = nothing_resumes [OF fresh]
  have "steps (stages_events env hp ?model var ?w0) =
     [Trained Query_Only ''weights_query_adapted.pt'', Evaluated Query_Only,
      Trained Plain ''weights.pt'', Evaluated Plain,
      Trained Plain ''weights_query_first.pt'', Evaluated Plain,
      Trained Separate_Embeddings ''weights_separate.pt'', Evaluated Separate_Embeddings]"
    using nr
    by (simp add: stages_events_def out qa_events_def joint_events_def qf_events_def
        sep_events_def steps_stage_events
        qa_path_def [symmetric] joint_path_def [symmetric] qf_path_def [symmetric]
        sep_path_def [symmetric])
  then show ?thesis
    by (simp add: new_events_run run_events_Inr [OF assms(1)] assms(2))
qed

theorem four_adapters_in_order_witness:
  "steps (new_events example_world
      (snd (run_experiment example_env example_variant example_world))) =
     [Trained Query_Only ''weights_query_adapted.pt'', Evaluated Query_Only,
      Trained Plain ''weights.pt'', Evaluated Plain,
      Trained Plain ''weights_query_first.pt'', Evaluated Plain,
      Trained Separate_Embeddings ''weights_separate.pt'', Evaluated Separate_Embeddings]"
  using four_adapters_in_order [OF example_read_variant example_validate example_libraries_answer,
      of example_world]
  by (simp add: example_world_def)

section \<open>The comparison plot\<close>

lemma plots_simps [simp]:
  "plots [] = []"
  "plots (e # evs) = plot_of e @ plots evs"
  "plots (xs @ ys) = plots xs @ plots ys"
  by (simp_all add: plots_def)

lemma plots_row_events [simp]: "plots (row_events xs) = []"
  by (induction xs) (auto simp: row_events_def)

lemma plots_stage_events [simp]:
  "plots (stage_events env hp model var v fname a n prep atype fs dso ctx0) = []"
  by (simp add: stage_events_def tae_events_def train_events_def log_events_def split: sum.split)

lemma plots_stage [simp]:
  "plots (qa_events env hp model var w0) = []"
  "plots (joint_events env hp model var w0) = []"
  "plots (qf_events env hp model var w0) = []"
  "plots (sep_events env hp model var w0) = []"
  by (simp_all add: qa_events_def joint_events_def qf_events_def sep_events_def)

lemma plots_plot_events:
  "plots (plot_events env hp model var x1 x2 x3 x4) =
     (case baseline_path env hp of
        Inl e \<Rightarrow> []
      | Inr path \<Rightarrow>
          [[(get_mteb_results env (task hp) path (BaseModel model), ''Baseline''),
            (x2, ''Linear (Joint)''), (x1, ''Linear (Query-Only)''),
            (x3, ''Linear (Query-First)''), (x4, ''Linear (Separate)'')]])"
  by (simp add: plot_events_def split: sum.split)

lemma plots_stages_le: "length (plots (stages_events env hp model var w0)) \<le> 1"
  by (simp add: stages_events_def plots_plot_events split: sum.split)

lemma plots_stages_only_after_all:
  "plots (stages_events env hp model var w0) \<noteq> [] \<Longrightarrow>
     (\<exists>r1 r2 r3 r4. qa_outcome env hp model var w0 = Inr r1
        \<and> joint_outcome env hp model var w0 = Inr r2
        \<and> qf_outcome env hp model var w0 = Inr r3 \<and> sep_outcome env hp model var w0 = Inr r4)"
  by (simp add: stages_events_def split: sum.splits)

text \<open>
  Claim C6.  In a run of a variant that passes validation, \<^verbatim>\<open>plot_comparison\<close> is
  called at most once, and only after the four trainings have all returned.  After the
  four adapters are trained and evaluated (and the model name is a string, so that the
  path of line 107 can be joined), the run returns, and it has called
  \<^verbatim>\<open>plot_comparison\<close> exactly once, as its last call, with the baseline results first,
  then the results of the joint, query-only, query-first and separate adapters; the
  baseline results are those of an evaluation of the base model itself.
\<close>

theorem plotted_once_after_all:
  assumes "read_variant var = Inr hp" and "validate hp = None"
  shows "length (plots (new_events w (snd (run_experiment env var w)))) \<le> 1
     \<and> (plots (new_events w (snd (run_experiment env var w))) \<noteq> [] \<longrightarrow>
          (\<exists>r1 r2 r3 r4.
             qa_outcome env hp (frozen_model env hp) var (start_world hp w) = Inr r1
           \<and> joint_outcome env hp (frozen_model env hp) var (start_world hp w) = Inr r2
           \<and> qf_outcome env hp (frozen_model env hp) var (start_world hp w) = Inr r3
           \<and> sep_outcome env hp (frozen_model env hp) var (start_world hp w) = Inr r4))
     \<and> (\<forall>r_query_adapted r_adapted r_query_first r_separate path.
          qa_outcome env hp (frozen_model env hp) var (start_world hp w) = Inr r_query_adapted
        \<and> joint_outcome env hp (frozen_model env hp) var (start_world hp w) = Inr r_adapted
        \<and> qf_outcome env hp (frozen_model env hp) var (start_world hp w) = Inr r_query_first
        \<and> sep_outcome env hp (frozen_model env hp) var (start_world hp w) = Inr r_separate
        \<and> baseline_path env hp = Inr path \<longrightarrow>
          fst (run_experiment env var w) = Inr ()
        \<and> plots (new_events w (snd (run_experiment env var w))) =
            [[(get_mteb_results env (task hp) path (BaseModel (frozen_model env hp)), ''Baseline''),
              (r_adapted, ''Linear (Joint)''),
              (r_query_adapted, ''Linear (Query-Only)''),
              (r_query_first, ''Linear (Query-First)''),
              (r_separate, ''Linear (Separate)'')]]
        \<and> last (new_events w (snd (run_experiment env var w))) =
            PlotComparison
              [(get_mteb_results env (task hp) path (BaseModel (frozen_model env hp)), ''Baseline''),
               (r_adapted, ''Linear (Joint)''),
               (r_query_adapted, ''Linear (Query-Only)''),
               (r_query_first, ''Linear (Query-First)''),
               (r_separate, ''Linear (Separate)'')]
              exp_name var
        \<and> Evaluate (task hp) path (BaseModel (frozen_model env hp))
            \<in> set (new_events w (snd (run_experiment env var w))))"
proof -
  let ?model = "frozen_model env hp" and ?w0 = "start_world hp w"
  let ?evs = "new_events w (snd (run_experiment env var w))"
  have evs: "?evs = LoadModel (model_name hp) # stages_events env hp ?model var ?w0"
    by (simp add: new_events_run run_events_Inr [OF assms(1)] assms(2))
  have run: "fst (run_experiment env var w) = fst (run_stages env hp ?model var ?w0)"
    by (simp add: run_experiment_def assms Let_def frozen_model_def start_world_def)
  have a: "length (plots ?evs) \<le> 1"
    using plots_stages_le [of env hp ?model var ?w0] by (simp add: evs)
  have b: "plots ?evs \<noteq> [] \<longrightarrow>
          (\<exists>r1 r2 r3 r4. qa_outcome env hp ?model var ?w0 = Inr r1
           \<and> joint_outcome env hp ?model var ?w0 = Inr r2
           \<and> qf_outcome env hp ?model var ?w0 = Inr r3
           \<and> sep_outcome env hp ?model var ?w0 = Inr r4)"
    using plots_stages_only_after_all [of env hp ?model var ?w0] by (simp add: evs)
  have c: "fst (run_experiment env var w) = Inr ()
        \<and> plots ?evs =
            [[(get_mteb_results env (task hp) path (BaseModel ?model), ''Baseline''),
              (r2, ''Linear (Joint)''), (r1, ''Linear (Query-Only)''),
              (r3, ''Linear (Query-First)''), (r4, ''Linear (Separate)'')]]
        \<and> last ?evs =
            PlotComparison
              [(get_mteb_results env (task hp) path (BaseModel ?model), ''Baseline''),
               (r2, ''Linear (Joint)''), (r1, ''Linear (Query-Only)''),
               (r3, ''Linear (Query-First)''), (r4, ''Linear (Separate)'')]
              exp_name var
        \<and> Evaluate (task hp) path (BaseModel ?model) \<in> set ?evs"
    if "qa_outcome env hp ?model var ?w0 = Inr r1 \<and> joint_outcome env hp ?model var ?w0 = Inr r2
        \<and> qf_outcome env hp ?model var ?w0 = Inr r3 \<and> sep_outcome env hp ?model var ?w0 = Inr r4
        \<and> baseline_path env hp = Inr path" for r1 r2 r3 r4 path
  proof -
    from that have st: "stages_events env hp ?model var ?w0 =
        qa_events env hp ?model var ?w0 @ joint_events env hp ?model var ?w0 @
        qf_events env hp ?model var ?w0 @ sep_events env hp ?model var ?w0 @
        [Evaluate (task hp) path (BaseModel ?model),
         PlotComparison
              [(get_mteb_results env (task hp) path (BaseModel ?model), ''Baseline''),
               (r2, ''Linear (Joint)''), (r1, ''Linear (Query-Only)''),
               (r3, ''Linear (Query-First)''), (r4, ''Linear (Separate)'')]
              exp_name var]"
      by (simp add: stages_events_def plot_events_def)
    from that have "fst (run_stages env hp ?model var ?w0) = Inr ()"
      by (simp add: run_stages_eq plot_stage_eq)
    then show ?thesis
      unfolding run evs st by simp
  qed
  from a b c show ?thesis by blast
qed

lemma example_baseline_path:
  "baseline_path example_env example_hparams =
     Inr ''/proj/results/all-MiniLM-L6-v2/CQADupstackEnglishRetrieval.json''"
  by (simp add: baseline_path_def example_env_def example_hparams_def format_value_def join_def
      join2_def)

theorem plotted_once_after_all_witness:
  "fst (run_experiment example_env example_variant example_world) = Inr ()
   \<and> length (plots (new_events example_world
        (snd (run_experiment example_env example_variant example_world)))) = 1"
proof -
  let ?w0 = "start_world example_hparams example_world"
  have fresh: "qa_path example_env ?w0 \<notin> files ?w0" "joint_path example_env ?w0 \<notin> files ?w0"
    "qf_path example_env ?w0 \<notin> files ?w0" "sep_path example_env ?w0 \<notin> files ?w0"
    by (simp_all add: example_world_def)
  from all_stages_return [OF example_libraries_answer fresh] obtain r1 r2 r3 r4 where
    "qa_outcome example_env example_hparams (frozen_model example_env example_hparams)
       example_variant ?w0 = Inr r1"
    "joint_outcome example_env example_hparams (frozen_model example_env example_hparams)
       example_variant ?w0 = Inr r2"
    "qf_outcome example_env example_hparams (frozen_model example_env example_hparams)
       example_variant ?w0 = Inr r3"
    "sep_outcome example_env example_hparams (frozen_model example_env example_hparams)
       example_variant ?w0 = Inr r4"
    by blast
  with plotted_once_after_all [OF example_read_variant example_validate, of example_world example_env]
    example_baseline_path
  show ?thesis by simp
qed

section \<open>The warm start of the query-first adapter\<close>

lemma started_row_events: "e \<in> set (row_events xs) \<Longrightarrow> started_with e = []"
  by (auto simp: row_events_def)

lemma started_tae_events:
  "e \<in> set (tae_events env hp m weights_file atype force_arg fs dso ctx) \<Longrightarrow>
     x \<in> set (started_with e) \<Longrightarrow> x = (m, weights_file)"
  by (auto simp: tae_events_def train_events_def log_events_def fit_kw_def
      split: if_splits sum.splits dest: started_row_events)

lemma started_stage_events:
  "e \<in> set (stage_events env hp model var v fname a n prep atype fs dso ctx0) \<Longrightarrow>
     x \<in> set (started_with e) \<Longrightarrow>
     x = (prep (fresh_adapter env model a n), weights_path env ctx0 v fname)"
  by (auto simp: stage_events_def dest: started_tae_events)

lemma started_plot_events:
  "e \<in> set (plot_events env hp model var x1 x2 x3 x4) \<Longrightarrow> started_with e = []"
  by (auto simp: plot_events_def split: sum.splits)

lemma started_stages:
  "e \<in> set (qa_events env hp model var w0) \<Longrightarrow> x \<in> set (started_with e) \<Longrightarrow>
     snd x = qa_path env w0"
  "e \<in> set (joint_events env hp model var w0) \<Longrightarrow> x \<in> set (started_with e) \<Longrightarrow>
     snd x = joint_path env w0"
  "e \<in> set (qf_events env hp model var w0) \<Longrightarrow> x \<in> set (started_with e) \<Longrightarrow>
     x = (copy_first_layer (qa_model env hp model var w0) (fresh_adapter env model Plain 2),
          qf_path env w0)"
  "e \<in> set (sep_events env hp model var w0) \<Longrightarrow> x \<in> set (started_with e) \<Longrightarrow>
     snd x = sep_path env w0"
  unfolding qa_events_def joint_events_def qf_events_def sep_events_def
    qa_path_def joint_path_def qf_path_def sep_path_def
  by (auto dest: started_stage_events)

lemma paths_neq:
  "qa_path env w \<noteq> qf_path env w" "joint_path env w \<noteq> qf_path env w"
  "sep_path env w \<noteq> qf_path env w"
  using paths_distinct [of env w] by auto

lemma qa_model_eq:
  "qa_model env hp model var w0 =
     tae_model env hp (fresh_adapter env model Query_Only 0) (qa_path env w0) False
       (files w0) (dataset w0)"
  by (simp add: qa_model_def query_adapted_stage_eq stage_eq qa_path_def)

lemma qa_evaluated:
  "Evaluate (task hp) (results_path env (stage_ctx (contexts w0) ''query_adapted''))
     (AdaptedModel (qa_model env hp model var w0)) \<in> set (qa_events env hp model var w0)"
  by (simp add: qa_events_def stage_events_def tae_events_def qa_model_eq qa_path_def)

lemma weight_copy_first_layer [simp]:
  "weight (copy_first_layer src tgt) = weight src" "bias (copy_first_layer src tgt) = bias src"
  by (simp_all add: copy_first_layer_def)

lemma qf_start_in_stages:
  assumes "e \<in> set (stages_events env hp model var w0)"
    and "(a, qf_path env w0) \<in> set (started_with e)"
  shows "a = copy_first_layer (qa_model env hp model var w0) (fresh_adapter env model Plain 2)"
    and "\<exists>rest. stages_events env hp model var w0 =
           qa_events env hp model var w0 @ joint_events env hp model var w0 @ rest"
    and "e \<notin> set (qa_events env hp model var w0)"
    and "e \<notin> set (joint_events env hp model var w0)"
proof -
  have n1: "e \<notin> set (qa_events env hp model var w0)"
    using started_stages(1) [OF _ assms(2)] paths_neq(1) [of env w0] by auto
  have n2: "e \<notin> set (joint_events env hp model var w0)"
    using started_stages(2) [OF _ assms(2)] paths_neq(2) [of env w0] by auto
  have n4: "e \<notin> set (sep_events env hp model var w0)"
    using started_stages(4) [OF _ assms(2)] paths_neq(3) [of env w0] by auto
  have n5: "e \<notin> set (plot_events env hp model var x1 x2 x3 x4)" for x1 x2 x3 x4
    using started_plot_events [of e env hp model var x1 x2 x3 x4] assms(2) by auto
  from in_stages_events [OF assms(1)] n1 n2 n4 n5
  have "e \<in> set (qf_events env hp model var w0)" by blast
  from started_stages(3) [OF this assms(2)]
  show "a = copy_first_layer (qa_model env hp model var w0) (fresh_adapter env model Plain 2)"
    by simp
  show "e \<notin> set (qa_events env hp model var w0)" by (rule n1)
  show "e \<notin> set (joint_events env hp model var w0)" by (rule n2)
  show "\<exists>rest. stages_events env hp model var w0 =
           qa_events env hp model var w0 @ joint_events env hp model var w0 @ rest"
  proof (cases "qa_outcome env hp model var w0")
    case (Inl err)
    with assms(1) n1 show ?thesis by (simp add: stages_events_def)
  next
    case r1: (Inr r1)
    show ?thesis
    proof (cases "joint_outcome env hp model var w0")
      case (Inl err)
      with assms(1) n1 n2 r1 show ?thesis by (simp add: stages_events_def)
    next
      case (Inr r2)
      with r1 show ?thesis by (simp add: stages_events_def)
    qed
  qed
qed

text \<open>
  Claim C4.  In every run of a variant that passes validation, the adapter with which the
  training of the query-first weights file starts (by \<^verbatim>\<open>fit\<close> or by
  \<^verbatim>\<open>load_state_dict\<close>) has the weight and the bias of the first layer of the query-only
  adapter as \<^verbatim>\<open>train_and_evaluate\<close> left it; that adapter is the fresh query-only
  adapter with the state that \<^verbatim>\<open>fit\<close> gave it, or with the loaded state when its
  weights file existed; and its evaluation, the last call that concerns it, comes in the
  trace before the training of the query-first adapter starts.
\<close>

theorem warm_start:
  assumes "read_variant var = Inr hp" and "validate hp = None"
    and "e \<in> set (new_events w (snd (run_experiment env var w)))"
    and "(a, qf_path env w) \<in> set (started_with e)"
  shows "weight a = weight (qa_model env hp (frozen_model env hp) var (start_world hp w))
     \<and> bias a = bias (qa_model env hp (frozen_model env hp) var (start_world hp w))
     \<and> Evaluate (task hp) (results_path env (stage_ctx (contexts w) ''query_adapted''))
         (AdaptedModel (qa_model env hp (frozen_model env hp) var (start_world hp w)))
         \<in> set (takeWhile (\<lambda>e'. e' \<noteq> e) (new_events w (snd (run_experiment env var w))))
     \<and> qa_model env hp (frozen_model env hp) var (start_world hp w) =
         load_state_dict
           (if qa_path env w \<in> files w then torch_load env (qa_path env w)
            else snd (fit_outcome env (fresh_adapter env (frozen_model env hp) Query_Only 0)
                       (new_dataset hp) (fit_kw hp (qa_path env w))))
           (fresh_adapter env (frozen_model env hp) Query_Only 0)"
proof -
  let ?model = "frozen_model env hp" and ?w0 = "start_world hp w"
  let ?evs = "new_events w (snd (run_experiment env var w))"
  let ?qa = "qa_model env hp ?model var ?w0"
  let ?E1 = "qa_events env hp ?model var ?w0" and ?E2 = "joint_events env hp ?model var ?w0"
  have evs: "?evs = LoadModel (model_name hp) # stages_events env hp ?model var ?w0"
    by (simp add: new_events_run run_events_Inr [OF assms(1)] assms(2))
  from assms(4) have ne: "e \<noteq> LoadModel (model_name hp)" by auto
  with assms(3) have e: "e \<in> set (stages_events env hp ?model var ?w0)"
    by (simp add: evs)
  from assms(4) have st: "(a, qf_path env ?w0) \<in> set (started_with e)" by simp
  note facts = qf_start_in_stages [OF e st]
  from facts(2) obtain rest where
    rest: "stages_events env hp ?model var ?w0 = ?E1 @ ?E2 @ rest" by blast
  have "takeWhile (\<lambda>e'. e' \<noteq> e) ?evs =
      (LoadModel (model_name hp) # ?E1 @ ?E2) @ takeWhile (\<lambda>e'. e' \<noteq> e) rest"
    unfolding evs rest using ne facts(3,4)
    by (subst takeWhile_append2 [symmetric]) auto
  moreover have "Evaluate (task hp) (results_path env (stage_ctx (contexts w) ''query_adapted''))
         (AdaptedModel ?qa) \<in> set ?E1"
    using qa_evaluated [of hp env ?w0 ?model var] by simp
  ultimately have order: "Evaluate (task hp)
      (results_path env (stage_ctx (contexts w) ''query_adapted'')) (AdaptedModel ?qa)
         \<in> set (takeWhile (\<lambda>e'. e' \<noteq> e) ?evs)"
    by simp
  have qa: "?qa = load_state_dict
           (if qa_path env w \<in> files w then torch_load env (qa_path env w)
            else snd (fit_outcome env (fresh_adapter env ?model Query_Only 0)
                       (new_dataset hp) (fit_kw hp (qa_path env w))))
           (fresh_adapter env ?model Query_Only 0)"
    by (simp add: qa_model_eq tae_model_def resumes_def dataset_used_def)
  from facts(1) order qa show ?thesis by simp
qed

lemma qf_fit_in_stages:
  assumes "qa_outcome env hp model var w0 = Inr r1" and "joint_outcome env hp model var w0 = Inr r2"
    and "\<not> resumes (files (joint_world env hp model var w0)) (qf_path env w0) False"
  shows "Fit (copy_first_layer (qa_model env hp model var w0) (fresh_adapter env model Plain 2))
           (dataset_used hp (dataset (joint_world env hp model var w0)))
           (fit_kw hp (qf_path env w0))
         \<in> set (stages_events env hp model var w0)"
  using assms
  by (simp add: stages_events_def qf_events_def stage_events_def tae_events_def train_events_def
      qf_path_def)

theorem warm_start_witness:
  "\<exists>e a. e \<in> set (new_events example_world
              (snd (run_experiment example_env example_variant example_world)))
     \<and> (a, ''/logs/query_first/weights_query_first.pt'') \<in> set (started_with e)
     \<and> weight a = 100 \<and> bias a = 110"
proof -
  let ?hp = example_hparams and ?env = example_env
  let ?model = "frozen_model ?env ?hp" and ?w0 = "start_world ?hp example_world"
  let ?a = "copy_first_layer (qa_model ?env ?hp ?model example_variant ?w0)
              (fresh_adapter ?env ?model Plain 2)"
  let ?e = "Fit ?a (dataset_used ?hp (dataset (joint_world ?env ?hp ?model example_variant ?w0)))
              (fit_kw ?hp (qf_path ?env ?w0))"
  have fresh: "qa_path ?env ?w0 \<notin> files ?w0" "joint_path ?env ?w0 \<notin> files ?w0"
    "qf_path ?env ?w0 \<notin> files ?w0" "sep_path ?env ?w0 \<notin> files ?w0"
    by (simp_all add: example_world_def)
  from all_stages_return [OF example_libraries_answer fresh] obtain r1 r2 where
    "qa_outcome ?env ?hp ?model example_variant ?w0 = Inr r1"
    "joint_outcome ?env ?hp ?model example_variant ?w0 = Inr r2"
    by blast
  from qf_fit_in_stages [OF this nothing_resumes(3) [OF fresh]]
  have mem: "?e \<in> set (new_events example_world
              (snd (run_experiment ?env example_variant example_world)))"
    by (simp add: new_events_run example_run_events)
  have path: "qf_path ?env example_world = ''/logs/query_first/weights_query_first.pt''"
    by (simp add: qf_path_def weights_path_def stage_ctx_def example_env_def join_def join2_def)
  have st: "(?a, qf_path ?env example_world) \<in> set (started_with ?e)"
    by (simp add: fit_kw_def)
  from warm_start [OF example_read_variant example_validate mem st]
  have "weight ?a = 100 \<and> bias ?a = 110"
    by (simp add: example_world_def example_env_def load_state_dict_def fresh_adapter_def)
  with mem st path show ?thesis by metis
qed

section \<open>One context and one weights file for each adapter type\<close>

lemma stamp_plain: "\<forall>e\<in>set xs. \<not> bracket e \<Longrightarrow> stamp c (xs @ ys) = map (Pair c) xs @ stamp c ys"
proof (induction xs)
  case Nil
  then show ?case by simp
next
  case (Cons e xs)
  then show ?case by (cases e) simp_all
qed

lemma row_events_plain: "e \<in> set (row_events xs) \<Longrightarrow> \<not> bracket e"
  by (auto simp: row_events_def)

lemma tae_events_plain:
  "e \<in> set (tae_events env hp m weights_file atype force_arg fs dso ctx) \<Longrightarrow> \<not> bracket e"
  by (auto simp: tae_events_def train_events_def log_events_def
      split: if_splits sum.splits dest: row_events_plain)

lemma plot_events_plain: "e \<in> set (plot_events env hp model var x1 x2 x3 x4) \<Longrightarrow> \<not> bracket e"
  by (auto simp: plot_events_def split: sum.splits)

lemma stamp_stage_events:
  "stamp c (stage_events env hp model var v fname a n prep atype fs dso ctx0 @ more_evs) =
     (c, Enter ''adapter_type'' v var) #
     map (Pair ((''adapter_type'', v) # c))
       (NewAdapter (fresh_adapter env model a n) #
        tae_events env hp (prep (fresh_adapter env model a n)) (weights_path env ctx0 v fname)
          atype False fs dso (stage_ctx ctx0 v)) @
     (c, Leave ''adapter_type'' v) # stamp c more_evs"
proof -
  let ?xs = "NewAdapter (fresh_adapter env model a n) #
        tae_events env hp (prep (fresh_adapter env model a n)) (weights_path env ctx0 v fname)
          atype False fs dso (stage_ctx ctx0 v)"
  have plain: "\<forall>e\<in>set ?xs. \<not> bracket e"
    by (auto dest: tae_events_plain)
  have "stage_events env hp model var v fname a n prep atype fs dso ctx0 @ more_evs =
      Enter ''adapter_type'' v var # ?xs @ (Leave ''adapter_type'' v # more_evs)"
    by (simp add: stage_events_def)
  then show ?thesis
    by (simp only: stamp.simps stamp_plain [OF plain] list.sel)
qed

lemma tae_events_weights:
  "e \<in> set (tae_events env hp m weights_file atype force_arg fs dso ctx) \<Longrightarrow>
     p \<in> set (weights_file_of e) \<Longrightarrow> p = weights_file"
  by (auto simp: tae_events_def train_events_def log_events_def row_events_def fit_kw_def
      split: if_splits sum.splits)

lemma isolated_stage:
  assumes "(v, fname) \<in> set stage_files"
    and "x \<in> set (stamp c0 (stage_events env hp model var v fname a n prep atype fs dso c0))"
  shows "isolated env c0 x"
proof -
  from assms(2) have x: "x \<in> set (stamp c0
      (stage_events env hp model var v fname a n prep atype fs dso c0 @ []))" by simp
  obtain c e where ce: "x = (c, e)" by (cases x)
  from x consider "e = Enter ''adapter_type'' v var" | "e = Leave ''adapter_type'' v"
    | "c = (''adapter_type'', v) # c0" "e = NewAdapter (fresh_adapter env model a n)"
    | "c = (''adapter_type'', v) # c0"
      "e \<in> set (tae_events env hp (prep (fresh_adapter env model a n))
          (weights_path env c0 v fname) atype False fs dso (stage_ctx c0 v))"
    unfolding stamp_stage_events ce by auto
  then show ?thesis
  proof cases
    case 1
    then show ?thesis by (simp add: isolated_def ce)
  next
    case 2
    then show ?thesis by (simp add: isolated_def ce)
  next
    case 3
    then show ?thesis by (simp add: isolated_def ce)
  next
    case 4
    have "p = join (get_snapshot_dir env c) [fname]" if "p \<in> set (weights_file_of e)" for p
      using tae_events_weights [OF 4(2) that] 4(1)
      by (simp add: weights_path_def stage_ctx_def)
    with assms(1) 4(1) show ?thesis
      unfolding isolated_def ce by fastforce
  qed
qed

lemma isolated_plain:
  assumes "\<forall>e\<in>set xs. \<not> bracket e \<and> weights_file_of e = [] \<and> \<not> logs e"
    and "x \<in> set (stamp c0 xs)"
  shows "isolated env c0 x"
proof -
  from assms(1) have "\<forall>e\<in>set xs. \<not> bracket e" by blast
  from stamp_plain [OF this, of c0 "[]"] assms(2) have "x \<in> set (map (Pair c0) xs)" by simp
  with assms(1) show ?thesis by (auto simp: isolated_def)
qed

lemma stamp_stage_append:
  "stamp c (stage_events env hp model var v fname a n prep atype fs dso ctx0 @ more_evs) =
     stamp c (stage_events env hp model var v fname a n prep atype fs dso ctx0) @ stamp c more_evs"
  using stamp_stage_events [of c env hp model var v fname a n prep atype fs dso ctx0 "[]"]
  by (simp add: stamp_stage_events)

lemma in_stamp_stages:
  "x \<in> set (stamp c (stages_events env hp model var w0)) \<Longrightarrow>
     x \<in> set (stamp c (qa_events env hp model var w0))
     \<or> x \<in> set (stamp c (joint_events env hp model var w0))
     \<or> x \<in> set (stamp c (qf_events env hp model var w0))
     \<or> x \<in> set (stamp c (sep_events env hp model var w0))
     \<or> (\<exists>x1 x2 x3 x4. x \<in> set (stamp c (plot_events env hp model var x1 x2 x3 x4)))"
  unfolding stages_events_def qa_events_def joint_events_def qf_events_def sep_events_def
  by (cases "qa_outcome env hp model var w0"; cases "joint_outcome env hp model var w0";
      cases "qf_outcome env hp model var w0"; cases "sep_outcome env hp model var w0")
     (auto simp: stamp_stage_append)

lemma plot_events_quiet:
  "e \<in> set (plot_events env hp model var x1 x2 x3 x4) \<Longrightarrow>
     \<not> bracket e \<and> weights_file_of e = [] \<and> \<not> logs e"
  by (auto simp: plot_events_def split: sum.splits)

lemma isolated_stages:
  assumes "x \<in> set (stamp (contexts w0) (stages_events env hp model var w0))"
  shows "isolated env (contexts w0) x"
proof -
  from in_stamp_stages [OF assms] consider
    "x \<in> set (stamp (contexts w0) (qa_events env hp model var w0))"
    | "x \<in> set (stamp (contexts w0) (joint_events env hp model var w0))"
    | "x \<in> set (stamp (contexts w0) (qf_events env hp model var w0))"
    | "x \<in> set (stamp (contexts w0) (sep_events env hp model var w0))"
    | x1 x2 x3 x4 where "x \<in> set (stamp (contexts w0) (plot_events env hp model var x1 x2 x3 x4))"
    by blast
  then show ?thesis
  proof cases
    case 1
    then show ?thesis
      unfolding qa_events_def by (intro isolated_stage) (simp_all add: stage_files_def)
  next
    case 2
    then show ?thesis
      unfolding joint_events_def by (intro isolated_stage) (simp_all add: stage_files_def)
  next
    case 3
    then show ?thesis
      unfolding qf_events_def by (intro isolated_stage) (simp_all add: stage_files_def)
  next
    case 4
    then show ?thesis
      unfolding sep_events_def by (intro isolated_stage) (simp_all add: stage_files_def)
  next
    case 5
    then show ?thesis
      by (intro isolated_plain [of "plot_events env hp model var x1 x2 x3 x4"])
         (auto dest: plot_events_quiet)
  qed
qed

lemma contexts_entered_simps [simp]:
  "contexts_entered [] = []"
  "contexts_entered (e # evs) = entered e @ contexts_entered evs"
  "contexts_entered (xs @ ys) = contexts_entered xs @ contexts_entered ys"
  by (simp_all add: contexts_entered_def)

lemma entered_plain: "\<forall>e\<in>set xs. \<not> bracket e \<Longrightarrow> contexts_entered xs = []"
proof (induction xs)
  case Nil
  then show ?case by simp
next
  case (Cons e xs)
  then show ?case by (cases e) simp_all
qed

lemma entered_stage_events [simp]:
  "contexts_entered (stage_events env hp model var v fname a n prep atype fs dso ctx0) =
     [(''adapter_type'', v)]"
  by (simp add: stage_events_def entered_plain tae_events_plain)

lemma entered_plot_events [simp]:
  "contexts_entered (plot_events env hp model var x1 x2 x3 x4) = []"
  by (simp add: entered_plain plot_events_plain)

lemma entered_stages: "distinct (contexts_entered (stages_events env hp model var w0))"
  by (simp add: stages_events_def qa_events_def joint_events_def qf_events_def sep_events_def
      split: sum.split)

text \<open>
  Claim C7.  The four weights files are the files named \<^verbatim>\<open>weights_query_adapted.pt\<close>,
  \<^verbatim>\<open>weights.pt\<close>, \<^verbatim>\<open>weights_query_first.pt\<close> and \<^verbatim>\<open>weights_separate.pt\<close> under
  the snapshot directories of the contexts \<^verbatim>\<open>adapter_type = query_adapted\<close>,
  \<^verbatim>\<open>adapted\<close>, \<^verbatim>\<open>query_first\<close> and \<^verbatim>\<open>separate\<close>; the four paths are different
  whatever the snapshot directories are, and so are the four context values and the four
  file names.  In every run, each \<^verbatim>\<open>fit\<close> and each \<^verbatim>\<open>load_state_dict\<close> happens inside
  one of these contexts and on the weights file of that context, each row of the tabular
  log is written inside one of them, and no context is entered twice.
\<close>

theorem logging_isolation:
  "[qa_path env w, joint_path env w, qf_path env w, sep_path env w] =
     map (\<lambda>(v, f). join (get_snapshot_dir env ((''adapter_type'', v) # contexts w)) [f]) stage_files
   \<and> distinct [qa_path env w, joint_path env w, qf_path env w, sep_path env w]
   \<and> distinct (map fst stage_files) \<and> distinct (map snd stage_files)
   \<and> (\<forall>x \<in> set (stamp (contexts w) (new_events w (snd (run_experiment env var w)))).
        isolated env (contexts w) x)
   \<and> distinct (contexts_entered (new_events w (snd (run_experiment env var w))))"
proof -
  let ?evs = "new_events w (snd (run_experiment env var w))"
  have a: "[qa_path env w, joint_path env w, qf_path env w, sep_path env w] =
     map (\<lambda>(v, f). join (get_snapshot_dir env ((''adapter_type'', v) # contexts w)) [f]) stage_files"
    by (simp add: stage_files_def qa_path_def joint_path_def qf_path_def sep_path_def
        weights_path_def stage_ctx_def)
  have b: "distinct (map fst stage_files) \<and> distinct (map snd stage_files)"
    by (simp add: stage_files_def)
  have c: "isolated env (contexts w) x" if "x \<in> set (stamp (contexts w) ?evs)" for x
  proof (cases "?evs = []")
    case True
    with that show ?thesis by simp
  next
    case False
    then obtain hp where evs: "?evs = LoadModel (model_name hp) #
        stages_events env hp (frozen_model env hp) var (start_world hp w)"
      by (auto simp: new_events_run run_events_def split: sum.splits option.splits)
    from that consider "x = (contexts w, LoadModel (model_name hp))"
      | "x \<in> set (stamp (contexts (start_world hp w))
           (stages_events env hp (frozen_model env hp) var (start_world hp w)))"
      unfolding evs by auto
    then show ?thesis
    proof cases
      case 1
      then show ?thesis by (simp add: isolated_def)
    next
      case 2
      from isolated_stages [OF this] show ?thesis by simp
    qed
  qed
  have d: "distinct (contexts_entered ?evs)"
    using entered_stages [of env _ _ var]
    by (simp add: new_events_run run_events_def split: sum.split option.split)
  from a b c d paths_distinct [of env w] show ?thesis by blast
qed

theorem logging_isolation_witness:
  "model_save_path (fit_kw example_hparams (qa_path example_env example_world)) =
     ''/logs/query_adapted/weights_query_adapted.pt''
   \<and> isolated example_env []
       ([(''adapter_type'', ''query_adapted'')],
        Fit (fresh_adapter example_env (frozen_model example_env example_hparams) Query_Only 0)
          (new_dataset example_hparams)
          (fit_kw example_hparams (qa_path example_env example_world)))"
proof -
  let ?e = "Fit (fresh_adapter example_env (frozen_model example_env example_hparams) Query_Only 0)
          (new_dataset example_hparams)
          (fit_kw example_hparams (qa_path example_env example_world))"
  have "([(''adapter_type'', ''query_adapted'')], ?e) \<in> set (stamp (contexts example_world)
          (new_events example_world (snd (run_experiment example_env example_variant example_world))))"
    by (simp add: new_events_run example_run_events stages_events_def qa_events_def
        stamp_stage_events tae_events_def train_events_def resumes_def dataset_used_def
        qa_path_def)
       (simp add: example_world_def)
  with logging_isolation [of example_env example_world example_variant]
  have "isolated example_env [] ([(''adapter_type'', ''query_adapted'')], ?e)"
    by (simp add: example_world_def)
  moreover have "model_save_path (fit_kw example_hparams (qa_path example_env example_world)) =
     ''/logs/query_adapted/weights_query_adapted.pt''"
    by (simp add: fit_kw_def qa_path_def weights_path_def stage_ctx_def example_env_def
        join_def join2_def)
  ultimately show ?thesis by simp
qed

section \<open>A run that finds a checkpoint\<close>

text \<open>
  What the exception of a resumed training does to a whole run: when the weights file of
  the query-only adapter exists, the run loads and evaluates that adapter and then ends
  with \<^verbatim>\<open>IndexError\<close>; the other three adapters are not reached.
\<close>

lemma tae_outcome_resumes:
  assumes "resumes fs p f" and "minus_one (num_epochs hp) = Inr ep"
  shows "tae_outcome env hp m p f fs dso ctx = Inl IndexError"
  using assms
  by (simp add: tae_outcome_def tae_row_def tae_losses_def final_row_def last_item_def)

lemma relaunch_raises:
  assumes "read_variant var = Inr hp" and "validate hp = None"
    and "minus_one (num_epochs hp) = Inr ep"
    and "qa_path env w \<in> files w"
  shows "fst (run_experiment env var w) = Inl IndexError"
    and "steps (new_events w (snd (run_experiment env var w))) =
           [Loaded Query_Only ''weights_query_adapted.pt'', Evaluated Query_Only]"
proof -
  let ?model = "frozen_model env hp" and ?w0 = "start_world hp w"
  from assms(4) have res: "resumes (files ?w0) (qa_path env ?w0) False"
    by (simp add: resumes_def)
  from tae_outcome_resumes [OF res assms(3)]
  have out: "qa_outcome env hp ?model var ?w0 = Inl IndexError"
    by (simp add: outcomes_eq)
  have "run_experiment env var w = run_stages env hp ?model var ?w0"
    by (simp add: run_experiment_def assms(1,2) Let_def frozen_model_def start_world_def)
  with out show "fst (run_experiment env var w) = Inl IndexError"
    by (simp add: run_stages_eq)
  from out res show "steps (new_events w (snd (run_experiment env var w))) =
           [Loaded Query_Only ''weights_query_adapted.pt'', Evaluated Query_Only]"
    by (simp add: new_events_run run_events_Inr [OF assms(1)] assms(2) stages_events_def
        qa_events_def steps_stage_events qa_path_def [symmetric])
qed

end
